theory Spec2Isabelle
  imports Complex_Main "HOL-Library.Log_Nat"
begin

unbundle bit_operations_syntax

section \<open>Python values and errors\<close>

text \<open>
  Every exception the modelled code can raise is a value of \<open>error\<close>; a function that
  can raise returns \<open>error + 'a\<close> with \<open>Inl\<close> for the exception.  Messages keep the
  fixed text of the source; an interpolated value is kept when it is a string.
\<close>

datatype error =
    ValueError string
  | KeyError
  | TypeError string
  | IndexError
  | AttributeError string
  | FileNotFoundError string
  | UnsupportedOperation string
  | OSError string
  | NotImplementedException
  | HTTPException nat string
  | SystemExit nat string
  | NameError string
  | Unmodelled string

text \<open>
  A parameter of an engine operation is a Python float or a Python string
  (\<open>float | str\<close> in the annotations of \<open>threshold\<close> and \<open>clamp\<close>).
\<close>

datatype param = Num real | Str string

section \<open>IEEE double arithmetic\<close>

text \<open>
  numpy computes on \<open>float64\<close>.  A finite double is a real number of the form
  \<open>m * 2 ^ e\<close> with \<open>\<bar>m\<bar> < 2 ^ 53\<close>; each arithmetic operation returns the exact
  result rounded to 53 significant bits, ties to even (\<open>fl\<close>).  \<open>ilog2 q\<close> is the
  exponent of the binade of a positive \<open>q\<close>: \<open>2 ^ ilog2 q \<le> q < 2 ^ (ilog2 q + 1)\<close>.
  The exponent range is not bounded here: overflow to infinity, subnormals and NaN are
  outside the model.
\<close>

definition ilog2 :: "real \<Rightarrow> int" where
  "ilog2 q = (if 1 \<le> q then bitlen \<lfloor>q\<rfloor> - 1 else - bitlen (\<lceil>1 / q\<rceil> - 1))"

definition round_half_even :: "real \<Rightarrow> int" where
  "round_half_even m = (let f = \<lfloor>m\<rfloor>; r = m - of_int f in
     if r < 1 / 2 then f else if 1 / 2 < r then f + 1 else if even f then f else f + 1)"

definition fl :: "real \<Rightarrow> real" where
  "fl q = (if q = 0 then 0 else
     (let e = ilog2 \<bar>q\<bar> - 52;
          p = (if 0 \<le> e then 2 ^ nat e else 1 / 2 ^ nat (- e)) in
      sgn q * of_int (round_half_even (\<bar>q\<bar> / p)) * p))"

definition fadd :: "real \<Rightarrow> real \<Rightarrow> real" where "fadd x y = fl (x + y)"
definition fsub :: "real \<Rightarrow> real \<Rightarrow> real" where "fsub x y = fl (x - y)"
definition fmul :: "real \<Rightarrow> real \<Rightarrow> real" where "fmul x y = fl (x * y)"
definition fdiv :: "real \<Rightarrow> real \<Rightarrow> real" where "fdiv x y = fl (x / y)"

text \<open>\<open>numpy.fmin\<close> and \<open>numpy.fmax\<close> select one of their arguments: no rounding.\<close>

definition fmin :: "real \<Rightarrow> real \<Rightarrow> real" where "fmin x y = min x y"
definition fmax :: "real \<Rightarrow> real \<Rightarrow> real" where "fmax x y = max x y"

text \<open>
  \<open>astype(np.uint8)\<close> truncates toward zero; a value outside 0..255 wraps modulo 256
  (what numpy does on the usual platforms; C leaves it undefined).
\<close>

definition trunc :: "real \<Rightarrow> int" where
  "trunc x = (if 0 \<le> x then \<lfloor>x\<rfloor> else \<lceil>x\<rceil>)"

definition astype_uint8 :: "real \<Rightarrow> nat" where
  "astype_uint8 x = nat (trunc x mod 256)"

section \<open>Strings\<close>

definition upper_char :: "char \<Rightarrow> char" where
  "upper_char c = (case map_of (zip ''abcdefghijklmnopqrstuvwxyz'' ''ABCDEFGHIJKLMNOPQRSTUVWXYZ'') c of
     Some u \<Rightarrow> u | None \<Rightarrow> c)"

definition lower_char :: "char \<Rightarrow> char" where
  "lower_char c = (case map_of (zip ''ABCDEFGHIJKLMNOPQRSTUVWXYZ'' ''abcdefghijklmnopqrstuvwxyz'') c of
     Some u \<Rightarrow> u | None \<Rightarrow> c)"

definition upper :: "string \<Rightarrow> string" where "upper s = map upper_char s"
definition lower :: "string \<Rightarrow> string" where "lower s = map lower_char s"

definition startswith :: "string \<Rightarrow> string \<Rightarrow> bool" where
  "startswith s p = (take (length p) s = p)"

definition endswith :: "string \<Rightarrow> string \<Rightarrow> bool" where
  "endswith s p = (length p \<le> length s \<and> drop (length s - length p) s = p)"

text \<open>\<open>s.find(n)\<close>: the first position where \<open>n\<close> occurs in \<open>s\<close>.\<close>

fun str_find :: "string \<Rightarrow> string \<Rightarrow> nat option" where
  "str_find [] n = (if n = [] then Some 0 else None)"
| "str_find (h # t) n =
     (if startswith (h # t) n then Some 0 else map_option Suc (str_find t n))"

text \<open>\<open>n in s\<close> on strings, and \<open>s.index(n)\<close>, which raises ValueError.\<close>

definition str_contains :: "string \<Rightarrow> string \<Rightarrow> bool" where
  "str_contains s n = (str_find s n \<noteq> None)"

definition str_index :: "string \<Rightarrow> string \<Rightarrow> error + nat" where
  "str_index s n = (case str_find s n of
     None \<Rightarrow> Inl (ValueError ''substring not found'') | Some i \<Rightarrow> Inr i)"

section \<open>Images and the libraries the engine calls\<close>

text \<open>
  A PIL image: its mode, one plane of bytes per band of the mode, and the container
  format it was read from (\<open>None\<close> for an image made in memory).
\<close>

record image =
  mode :: string
  planes :: "nat list list"
  format :: "string option"

text \<open>
  What PIL and numpy compute without the repository's code taking part is a parameter of
  the model: the mode conversion \<open>Image.convert\<close>, and the six reductions of the
  table \<open>SUPPORTED_KEYWORD_PARAMS\<close>.  \<open>can_write f m\<close> says that the codec of
  container format \<open>f\<close> can store an image of mode \<open>m\<close>.
\<close>

record externals =
  pil_convert :: "image \<Rightarrow> string \<Rightarrow> error + image"
  np_mean :: "real list \<Rightarrow> error + real"
  np_median :: "real list \<Rightarrow> error + real"
  np_min :: "real list \<Rightarrow> error + real"
  np_max :: "real list \<Rightarrow> error + real"
  np_sum :: "real list \<Rightarrow> error + real"
  np_std :: "real list \<Rightarrow> error + real"
  can_write :: "string \<Rightarrow> string \<Rightarrow> bool"

text \<open>\<open>Image.merge(mode, bands)\<close>: a new image, with no container format.\<close>

definition pil_merge :: "string \<Rightarrow> nat list list \<Rightarrow> error + image" where
  "pil_merge m bands =
     (if length bands \<noteq> length m then Inl (ValueError ''wrong number of bands'')
      else Inr \<lparr>mode = m, planes = bands, format = None\<rparr>)"

text \<open>
  A binary file object: whether it was opened for writing, and what has been written to
  it, kept as the container format and the image that was encoded.
\<close>

record file_obj =
  writable :: bool
  written :: "(string \<times> image) option"

text \<open>
  \<open>Image.save(fp, format)\<close>: with no format and no file name to take it from PIL
  raises ValueError; a codec that cannot store the mode raises OSError; writing to a
  file object that is not open for writing raises \<open>io.UnsupportedOperation\<close>.
\<close>

definition pil_save :: "externals \<Rightarrow> image \<Rightarrow> file_obj \<Rightarrow> string option \<Rightarrow> error + file_obj" where
  "pil_save E img fp fmt =
     (case fmt of
        None \<Rightarrow> Inl (ValueError ''unknown file extension'')
      | Some f \<Rightarrow>
          if \<not> can_write E f (mode img) then Inl (OSError ''cannot write mode'')
          else if \<not> writable fp then Inl (UnsupportedOperation ''write'')
          else Inr (fp\<lparr>written := Some (f, img)\<rparr>))"

section \<open>The colorspace engine (src/src/convert.py)\<close>

definition SUPPORTED_PIL_MODES :: "(string \<times> string list) list" where
  "SUPPORTED_PIL_MODES =
     [(''RGB'', [''red'', ''green'', ''blue'']),
      (''RGBA'', [''red'', ''green'', ''blue'', ''alpha'']),
      (''L'', [''luminance'']),
      (''LA'', [''luminance'', ''alpha'']),
      (''HSV'', [''hue'', ''saturation'', ''value''])]"

definition COLOR_CHANNEL_TO_SHORTHAND :: "(string \<times> string) list" where
  "COLOR_CHANNEL_TO_SHORTHAND =
     [(''hue'', ''h''), (''saturation'', ''s''), (''value'', ''v''), (''red'', ''r''),
      (''green'', ''g''), (''blue'', ''b''), (''alpha'', ''a''), (''luminance'', ''l'')]"

definition SUPPORTED_OPERATIONS :: "string list" where
  "SUPPORTED_OPERATIONS = [''invert'', ''offset'', ''clamp'', ''scale'', ''threshold'']"

definition SUPPORTED_COLOR_CHANNEL_SHORTHANDS :: "string list" where
  "SUPPORTED_COLOR_CHANNEL_SHORTHANDS = [''h'', ''s'', ''v'', ''r'', ''g'', ''b'', ''a'', ''l'']"

definition SUPPORTED_KEYWORD_PARAMS :: "externals \<Rightarrow> (string \<times> (real list \<Rightarrow> error + real)) list" where
  "SUPPORTED_KEYWORD_PARAMS E =
     [(''mean'', np_mean E), (''median'', np_median E), (''min'', np_min E),
      (''max'', np_max E), (''sum'', np_sum E), (''std'', np_std E)]"

definition SUPPORTED_CLAMP_MODES :: "(string \<times> (real \<Rightarrow> real \<Rightarrow> real)) list" where
  "SUPPORTED_CLAMP_MODES = [(''min'', fmin), (''max'', fmax)]"

text \<open>
  A name that starts with an underscore in the source is written with the prefix
  \<open>u_\<close>.  \<open>u_get_format\<close> walks the entries of the current mode in the order of
  the table.
\<close>

definition get_format_table :: "(string \<times> (string \<times> string list) list) list" where
  "get_format_table =
     [(''RGB'', [(''RGBA'', [''A'']), (''HSV'', [''H'', ''S'', ''V'']), (''L'', [''L''])]),
      (''RGBA'', [(''HSV'', [''H'', ''S'', ''V'']), (''L'', [''L''])]),
      (''HSV'', [(''RGBA'', [''R'', ''G'', ''B'', ''A'']), (''LA'', [''L''])]),
      (''L'', [(''RGB'', [''R'', ''G'', ''B'']), (''RGBA'', [''A'']), (''HSV'', [''H'', ''S'', ''V''])]),
      (''LA'', [(''RGBA'', [''R'', ''G'', ''B'']), (''HSV'', [''H'', ''S'', ''V''])])]"

definition u_get_format :: "string \<Rightarrow> string \<Rightarrow> error + string" where
  "u_get_format current k =
     (case map_of get_format_table current of
        None \<Rightarrow> Inl KeyError
      | Some entries \<Rightarrow>
          (case find (\<lambda>(m, channels). k \<in> set channels) entries of
             Some (m, channels) \<Rightarrow> Inr m
           | None \<Rightarrow> Inl (ValueError ''No format supports the channel'')))"

text \<open>\<open>u_clamp\<close> works on an array: \<open>clamp01\<close> is what it does to one element.\<close>

definition clamp01 :: "real \<Rightarrow> real" where
  "clamp01 x = fmax (fmin x 1) 0"

definition u_clamp :: "real list \<Rightarrow> real list" where
  "u_clamp v = map clamp01 v"

text \<open>
  The session.  \<open>written_log\<close> is not a field of the source: it records, oldest
  first, every normalised plane that \<open>u_set_channel\<close> was given, before the
  conversion to bytes.
\<close>

record modifier =
  image_handle :: image
  loaded_channels :: "nat list list option"
  auto_clamp :: bool
  debug :: bool
  image_format :: "string option"
  current_format :: string
  output_format :: string
  written_log :: "real list list"

definition str_of_format :: "string option \<Rightarrow> string" where
  "str_of_format f = (case f of None \<Rightarrow> ''None'' | Some s \<Rightarrow> s)"

definition init_modifier :: "image \<Rightarrow> bool \<Rightarrow> bool \<Rightarrow> error + modifier" where
  "init_modifier image_handle' auto_clamp' debug' =
     (if mode image_handle' \<notin> set (map fst SUPPORTED_PIL_MODES)
      then Inl (ValueError (''Unsupported image format '' @ mode image_handle'))
      else Inr \<lparr>image_handle = image_handle', loaded_channels = None,
                auto_clamp = auto_clamp', debug = debug',
                image_format = format image_handle',
                current_format = mode image_handle',
                output_format = mode image_handle',
                written_log = []\<rparr>)"

definition set_clamp :: "modifier \<Rightarrow> bool \<Rightarrow> modifier" where
  "set_clamp self b = self\<lparr>auto_clamp := b\<rparr>"

text \<open>
  \<open>set_handle\<close> (and \<open>load_image\<close> once the file is open) store the new handle and
  its mode, then test the container format remembered by the constructor against the
  table of modes.
\<close>

definition set_handle :: "modifier \<Rightarrow> image \<Rightarrow> error + modifier" where
  "set_handle self image_handle' =
     (let self = self\<lparr>image_handle := image_handle',
                       current_format := mode image_handle',
                       output_format := mode image_handle'\<rparr>
      in if (case image_format self of
               None \<Rightarrow> True
             | Some f \<Rightarrow> f \<notin> set (map fst SUPPORTED_PIL_MODES))
         then Inl (ValueError (''Unsupported image format '' @ str_of_format (image_format self)))
         else Inr self)"

text \<open>
  The file system maps a path to the image its file decodes to; \<open>Image.open\<close> of a
  path that does not exist raises FileNotFoundError.
\<close>

type_synonym filesystem = "string \<rightharpoonup> image"

definition image_open :: "filesystem \<Rightarrow> string \<Rightarrow> error + image" where
  "image_open fs filename =
     (case fs filename of None \<Rightarrow> Inl (FileNotFoundError filename) | Some img \<Rightarrow> Inr img)"

definition load_image :: "filesystem \<Rightarrow> modifier \<Rightarrow> string \<Rightarrow> error + modifier" where
  "load_image fs self filename =
     (case image_open fs filename of
        Inl e \<Rightarrow> Inl e
      | Inr img \<Rightarrow>
          (let self = self\<lparr>image_handle := img,
                            current_format := mode img,
                            output_format := mode img\<rparr>
           in if (case image_format self of
                    None \<Rightarrow> True
                  | Some f \<Rightarrow> f \<notin> set (map fst SUPPORTED_PIL_MODES))
              then Inl (ValueError (''Unsupported image format '' @ str_of_format (image_format self)))
              else Inr self))"

definition from_image :: "filesystem \<Rightarrow> string \<Rightarrow> bool \<Rightarrow> error + modifier" where
  "from_image fs filename debug' =
     (case image_open fs filename of
        Inl e \<Rightarrow> Inl e
      | Inr img \<Rightarrow> init_modifier img True debug')"

definition u_close_channels :: "modifier \<Rightarrow> error + modifier" where
  "u_close_channels self =
     (case loaded_channels self of
        None \<Rightarrow> Inr self
      | Some chans \<Rightarrow>
          (case pil_merge (current_format self) chans of
             Inl e \<Rightarrow> Inl e
           | Inr img \<Rightarrow> Inr (self\<lparr>image_handle := img, loaded_channels := None\<rparr>)))"

definition u_convert_image :: "externals \<Rightarrow> modifier \<Rightarrow> string \<Rightarrow> error + modifier" where
  "u_convert_image E self new_format =
     (if new_format \<notin> set (map fst SUPPORTED_PIL_MODES)
      then Inl (ValueError (''Unsupported image format '' @ new_format))
      else case u_close_channels self of
             Inl e \<Rightarrow> Inl e
           | Inr self \<Rightarrow>
               (case pil_convert E (image_handle self) new_format of
                  Inl e \<Rightarrow> Inl e
                | Inr img \<Rightarrow> Inr (self\<lparr>image_handle := img, current_format := new_format\<rparr>)))"

text \<open>
  \<open>u_get_channel\<close> returns the session too: the first access splits the image into
  \<open>loaded_channels\<close>.
\<close>

definition u_get_channel :: "modifier \<Rightarrow> string \<Rightarrow> error + (real list \<times> modifier)" where
  "u_get_channel self channel =
     (let self = (case loaded_channels self of
                    None \<Rightarrow> self\<lparr>loaded_channels := Some (planes (image_handle self))\<rparr>
                  | Some chans \<Rightarrow> self)
      in case str_index (current_format self) (upper channel) of
           Inl e \<Rightarrow> Inl e
         | Inr ix \<Rightarrow>
             (case loaded_channels self of
                None \<Rightarrow> Inl (TypeError ''NoneType is not subscriptable'')
              | Some chans \<Rightarrow>
                  if ix < length chans
                  then Inr (map (\<lambda>b. fdiv (of_nat b) 255) (chans ! ix), self)
                  else Inl IndexError))"

definition u_set_channel :: "modifier \<Rightarrow> string \<Rightarrow> real list \<Rightarrow> error + modifier" where
  "u_set_channel self channel value =
     (case str_index (current_format self) (upper channel) of
        Inl e \<Rightarrow> Inl e
      | Inr ix \<Rightarrow>
          (case loaded_channels self of
             None \<Rightarrow> Inl (TypeError ''NoneType does not support item assignment'')
           | Some chans \<Rightarrow>
               if ix < length chans
               then Inr (self\<lparr>loaded_channels :=
                                 Some (chans[ix := map (\<lambda>x. astype_uint8 (fmul x 255)) value]),
                               written_log := written_log self @ [value]\<rparr>)
               else Inl IndexError))"

definition u_pre :: "externals \<Rightarrow> modifier \<Rightarrow> string \<Rightarrow> error + (real list \<times> string \<times> modifier)" where
  "u_pre E self channel =
     (case (if length channel \<noteq> 1
            then (case map_of COLOR_CHANNEL_TO_SHORTHAND (lower channel) of
                    None \<Rightarrow> Inl KeyError | Some c \<Rightarrow> Inr c)
            else Inr channel) of
        Inl e \<Rightarrow> Inl e
      | Inr channel \<Rightarrow>
          (case (if \<not> str_contains (current_format self) (upper channel)
                 then (case u_get_format (current_format self) (upper channel) of
                         Inl e \<Rightarrow> Inl e
                       | Inr f \<Rightarrow> u_convert_image E self f)
                 else Inr self) of
             Inl e \<Rightarrow> Inl e
           | Inr self \<Rightarrow>
               (case u_get_channel self (upper channel) of
                  Inl e \<Rightarrow> Inl e
                | Inr (v, self) \<Rightarrow> Inr (v, upper channel, self))))"

definition u_post :: "modifier \<Rightarrow> string \<Rightarrow> real list \<Rightarrow> error + modifier" where
  "u_post self channel value =
     u_set_channel self channel (if auto_clamp self then u_clamp value else value)"

definition convert :: "externals \<Rightarrow> modifier \<Rightarrow> string \<Rightarrow> error + modifier" where
  "convert E self new_format =
     (case u_convert_image E self new_format of
        Inl e \<Rightarrow> Inl e
      | Inr self \<Rightarrow> Inr (self\<lparr>output_format := new_format\<rparr>))"

fun invert :: "externals \<Rightarrow> modifier \<Rightarrow> string list \<Rightarrow> error + modifier" where
  "invert E self [] = Inr self"
| "invert E self (channel # channels) =
     (case u_pre E self channel of
        Inl e \<Rightarrow> Inl e
      | Inr (v, c, self) \<Rightarrow>
          (case u_post self c (map (\<lambda>x. fsub 1 x) v) of
             Inl e \<Rightarrow> Inl e
           | Inr self \<Rightarrow> invert E self channels))"

text \<open>
  \<open>threshold\<close> indexes the keyword table with the parameter whatever it is, then
  performs the two masked assignments one after the other.
\<close>

definition keyword_lookup :: "externals \<Rightarrow> param \<Rightarrow> (real list \<Rightarrow> error + real) option" where
  "keyword_lookup E color =
     (case color of Num x \<Rightarrow> None | Str k \<Rightarrow> map_of (SUPPORTED_KEYWORD_PARAMS E) k)"

definition threshold_value :: "real \<Rightarrow> real \<Rightarrow> real" where
  "threshold_value color x =
     (let y = (if x < color then 0 else x) in if color \<le> y then 1 else y)"

fun threshold :: "externals \<Rightarrow> modifier \<Rightarrow> (string \<times> param) list \<Rightarrow> error + modifier" where
  "threshold E self [] = Inr self"
| "threshold E self ((channel, color) # channels) =
     (case u_pre E self channel of
        Inl e \<Rightarrow> Inl e
      | Inr (v, c, self) \<Rightarrow>
          (case keyword_lookup E color of
             None \<Rightarrow> Inl KeyError
           | Some f \<Rightarrow>
               (case f v of
                  Inl e \<Rightarrow> Inl e
                | Inr color \<Rightarrow>
                    (case u_post self c (map (threshold_value color) v) of
                       Inl e \<Rightarrow> Inl e
                     | Inr self \<Rightarrow> threshold E self channels))))"

fun clamp :: "externals \<Rightarrow> modifier \<Rightarrow> (string \<times> string \<times> param) list \<Rightarrow> error + modifier" where
  "clamp E self [] = Inr self"
| "clamp E self ((channel, mode', color) # channels) =
     (case u_pre E self channel of
        Inl e \<Rightarrow> Inl e
      | Inr (v, c, self) \<Rightarrow>
          (case keyword_lookup E color of
             None \<Rightarrow> Inl (ValueError ''Invalid clamp color'')
           | Some f \<Rightarrow>
               (case f v of
                  Inl e \<Rightarrow> Inl e
                | Inr color \<Rightarrow>
                    (case map_of SUPPORTED_CLAMP_MODES mode' of
                       None \<Rightarrow> Inl (ValueError (''Invalid clamp mode '' @ mode'))
                     | Some g \<Rightarrow>
                         (case u_post self c (map (\<lambda>x. g x color) v) of
                            Inl e \<Rightarrow> Inl e
                          | Inr self \<Rightarrow> clamp E self channels)))))"

fun scale :: "externals \<Rightarrow> modifier \<Rightarrow> (string \<times> real) list \<Rightarrow> error + modifier" where
  "scale E self [] = Inr self"
| "scale E self ((channel, factor) # channels) =
     (case u_pre E self channel of
        Inl e \<Rightarrow> Inl e
      | Inr (v, c, self) \<Rightarrow>
          (case u_post self c (map (\<lambda>x. fmul x factor) v) of
             Inl e \<Rightarrow> Inl e
           | Inr self \<Rightarrow> scale E self channels))"

fun offset :: "externals \<Rightarrow> modifier \<Rightarrow> (string \<times> real) list \<Rightarrow> error + modifier" where
  "offset E self [] = Inr self"
| "offset E self ((channel, offset') # channels) =
     (case u_pre E self channel of
        Inl e \<Rightarrow> Inl e
      | Inr (v, c, self) \<Rightarrow>
          (case u_post self c (map (\<lambda>x. fadd x offset') v) of
             Inl e \<Rightarrow> Inl e
           | Inr self \<Rightarrow> offset E self channels))"

text \<open>\<open>save_image\<close> returns the session and the file object after the write.\<close>

definition save_image ::
  "externals \<Rightarrow> modifier \<Rightarrow> file_obj \<Rightarrow> string \<Rightarrow> error + (modifier \<times> file_obj)" where
  "save_image E self output_handle output_format' =
     (case (if output_format' = ''default'' then Inr (output_format self)
            else if output_format' \<notin> set (map fst SUPPORTED_PIL_MODES)
            then Inl (ValueError (''Unsupported output format: '' @ output_format'))
            else Inr output_format') of
        Inl e \<Rightarrow> Inl e
      | Inr output_format' \<Rightarrow>
          (case (if current_format self \<noteq> output_format'
                 then u_convert_image E self output_format' else Inr self) of
             Inl e \<Rightarrow> Inl e
           | Inr self \<Rightarrow>
               (case u_close_channels self of
                  Inl e \<Rightarrow> Inl e
                | Inr self \<Rightarrow>
                    (case pil_save E (image_handle self) output_handle (image_format self) of
                       Inl e \<Rightarrow> Inl e
                     | Inr fp \<Rightarrow> Inr (self, fp)))))"

text \<open>
  A call of one of the five operations, and a sequence of calls on one session, each
  on the session the previous one returned; the first exception ends the sequence.
\<close>

datatype call =
    Invert "string list"
  | Offset "(string \<times> real) list"
  | Scale "(string \<times> real) list"
  | Threshold "(string \<times> param) list"
  | Clamp "(string \<times> string \<times> param) list"

fun perform :: "externals \<Rightarrow> modifier \<Rightarrow> call \<Rightarrow> error + modifier" where
  "perform E self (Invert channels) = invert E self channels"
| "perform E self (Offset channels) = offset E self channels"
| "perform E self (Scale channels) = scale E self channels"
| "perform E self (Threshold channels) = threshold E self channels"
| "perform E self (Clamp channels) = clamp E self channels"

fun perform_all :: "externals \<Rightarrow> modifier \<Rightarrow> call list \<Rightarrow> error + modifier" where
  "perform_all E self [] = Inr self"
| "perform_all E self (c # cs) =
     (case perform E self c of Inl e \<Rightarrow> Inl e | Inr self \<Rightarrow> perform_all E self cs)"

subsection \<open>A reference environment\<close>

text \<open>
  Closed statements need the library functions at concrete arguments.  The reference
  environment gives the reductions on the short arrays used below, where numpy adds the
  elements one after the other: the sum, the mean (the sum divided by the count), the
  minimum and the maximum.  The median, the standard deviation and the mode conversion
  are not given (they answer \<open>Unmodelled\<close>); no statement below reaches them.  PNG
  stores the modes RGB, RGBA, L and LA.
\<close>

definition np_sum_ref :: "real list \<Rightarrow> error + real" where
  "np_sum_ref xs = Inr (foldl fadd 0 xs)"

definition np_mean_ref :: "real list \<Rightarrow> error + real" where
  "np_mean_ref xs =
     (if xs = [] then Inl (Unmodelled ''mean of an empty array'')
      else Inr (fdiv (foldl fadd 0 xs) (of_nat (length xs))))"

definition np_min_ref :: "real list \<Rightarrow> error + real" where
  "np_min_ref xs =
     (if xs = [] then Inl (ValueError ''zero-size array to reduction operation'')
      else Inr (foldl min (hd xs) (tl xs)))"

definition np_max_ref :: "real list \<Rightarrow> error + real" where
  "np_max_ref xs =
     (if xs = [] then Inl (ValueError ''zero-size array to reduction operation'')
      else Inr (foldl max (hd xs) (tl xs)))"

definition reference_externals :: externals where
  "reference_externals =
     \<lparr>pil_convert = (\<lambda>img m. Inl (Unmodelled ''Image.convert'')),
      np_mean = np_mean_ref,
      np_median = (\<lambda>xs. Inl (Unmodelled ''numpy.median'')),
      np_min = np_min_ref,
      np_max = np_max_ref,
      np_sum = np_sum_ref,
      np_std = (\<lambda>xs. Inl (Unmodelled ''numpy.std'')),
      can_write = (\<lambda>f m. f = ''PNG'' \<and> m \<in> set [''RGB'', ''RGBA'', ''L'', ''LA''])\<rparr>"

text \<open>A one-pixel red PNG image, and a two-pixel one.\<close>

definition red_pixel :: image where
  "red_pixel = \<lparr>mode = ''RGB'', planes = [[255], [0], [0]], format = Some ''PNG''\<rparr>"

definition two_pixels :: image where
  "two_pixels = \<lparr>mode = ''RGB'', planes = [[255, 255], [0, 1], [10, 20]], format = Some ''PNG''\<rparr>"

definition bytes_io :: file_obj where
  "bytes_io = \<lparr>writable = True, written = None\<rparr>"

text \<open>The session of the red pixel, as built and after its red channel was inverted.\<close>

definition red_session :: modifier where
  "red_session =
     \<lparr>image_handle = red_pixel, loaded_channels = None, auto_clamp = False, debug = False,
      image_format = Some ''PNG'', current_format = ''RGB'', output_format = ''RGB'',
      written_log = []\<rparr>"

definition red_inverted_session :: modifier where
  "red_inverted_session =
     red_session\<lparr>loaded_channels := Some [[0], [0], [0]], written_log := [[0]]\<rparr>"

subsection \<open>One byte through invert\<close>

text \<open>
  The planes of a session: the split channels once they are loaded, the planes of the
  image before.  \<open>invert_byte ac b\<close> is what \<open>invert\<close> stores for a byte \<open>b\<close>
  with the auto-clamp flag \<open>ac\<close>: normalise, subtract from one, clamp if asked,
  scale back and truncate.  \<open>invert_table\<close> lists its value on the bytes 0 to 255.
\<close>

definition session_planes :: "modifier \<Rightarrow> nat list list" where
  "session_planes s =
     (case loaded_channels s of None \<Rightarrow> planes (image_handle s) | Some chans \<Rightarrow> chans)"

definition invert_byte :: "bool \<Rightarrow> nat \<Rightarrow> nat" where
  "invert_byte ac b =
     astype_uint8 (fmul ((if ac then clamp01 else id) (fsub 1 (fdiv (of_nat b) 255))) 255)"

definition invert_table :: "nat list" where
  "invert_table =
     [255, 254, 253, 252, 251, 250, 249, 248, 247, 246, 245, 244, 243, 242, 241, 240,
      239, 238, 237, 236, 235, 234, 233, 232, 231, 230, 229, 228, 227, 226, 225, 224,
      223, 222, 221, 220, 219, 218, 217, 216, 215, 214, 213, 211, 211, 210, 209, 208,
      207, 206, 205, 204, 203, 202, 201, 200, 199, 198, 197, 195, 195, 194, 193, 192,
      191, 190, 189, 188, 187, 186, 185, 184, 183, 182, 180, 179, 179, 178, 177, 176,
      175, 174, 173, 172, 171, 170, 169, 168, 167, 166, 164, 163, 163, 162, 161, 160,
      159, 158, 157, 156, 155, 154, 153, 152, 151, 150, 148, 147, 147, 146, 145, 144,
      143, 142, 141, 140, 139, 138, 137, 136, 135, 134, 132, 131, 131, 130, 129, 128,
      127, 126, 125, 124, 122, 121, 121, 120, 119, 118, 117, 116, 114, 113, 113, 112,
      111, 110, 109, 108, 106, 105, 105, 104, 103, 102, 101, 100, 98, 97, 97, 96,
      95, 94, 93, 92, 90, 89, 89, 88, 87, 86, 85, 84, 82, 81, 81, 80,
      79, 78, 77, 76, 74, 73, 73, 72, 71, 70, 69, 68, 66, 65, 65, 64,
      63, 62, 61, 60, 58, 57, 56, 56, 55, 54, 53, 52, 50, 49, 48, 48,
      47, 46, 45, 44, 42, 41, 40, 40, 39, 38, 37, 36, 34, 33, 32, 32,
      31, 30, 29, 28, 26, 25, 24, 24, 23, 22, 21, 20, 18, 17, 16, 16,
      15, 14, 13, 12, 10, 9, 8, 8, 7, 6, 5, 4, 2, 1, 0, 0]"

text \<open>Two bytes are near when they differ by at most one step of 1/255.\<close>

definition near :: "nat \<Rightarrow> nat \<Rightarrow> bool" where
  "near a b = (a \<le> b + 1 \<and> b \<le> a + 1)"

text \<open>
  The session of the red pixel with the auto-clamp flag set, as built and after its red
  channel was offset by one half: the sum 1.5 is clamped to 1 and stored as 255.
\<close>

definition red_session_clamping :: modifier where
  "red_session_clamping = red_session\<lparr>auto_clamp := True\<rparr>"

definition red_offset_session :: modifier where
  "red_offset_session =
     red_session_clamping\<lparr>loaded_channels := Some [[255], [0], [0]], written_log := [[1]]\<rparr>"

text \<open>
  The session of the two-pixel image with the auto-clamp flag off, as built, after the
  channels were split, and after its green channel (bytes 0 and 1) was clamped with
  mode \<open>max\<close> and keyword \<open>mean\<close>.  \<open>one_255\<close> is the double nearest to 1/255 and
  \<open>green_mean\<close> the mean of the normalised green plane.
\<close>

definition one_255 :: real where
  "one_255 = 282578800148737 / 72057594037927936"

definition green_mean :: real where
  "green_mean = one_255 / 2"

definition two_session :: modifier where
  "two_session =
     \<lparr>image_handle = two_pixels, loaded_channels = None, auto_clamp = False, debug = False,
      image_format = Some ''PNG'', current_format = ''RGB'', output_format = ''RGB'',
      written_log = []\<rparr>"

definition two_loaded :: modifier where
  "two_loaded = two_session\<lparr>loaded_channels := Some [[255, 255], [0, 1], [10, 20]]\<rparr>"

definition two_clamped :: modifier where
  "two_clamped = two_loaded\<lparr>written_log := [[green_mean, one_255]]\<rparr>"

subsection \<open>An image in the mode HSV\<close>

text \<open>
  No codec of PIL decodes a file to the mode HSV: an image in that mode comes from
  \<open>Image.convert\<close> and has no container format.  \<open>hsv_png_pixel\<close> is the same image
  with the attribute \<open>format\<close> set to PNG.  The sessions are what the constructor
  builds from them.
\<close>

definition hsv_pixel :: image where
  "hsv_pixel = \<lparr>mode = ''HSV'', planes = [[0], [255], [255]], format = None\<rparr>"

definition hsv_session :: modifier where
  "hsv_session =
     \<lparr>image_handle = hsv_pixel, loaded_channels = None, auto_clamp = True, debug = False,
      image_format = None, current_format = ''HSV'', output_format = ''HSV'',
      written_log = []\<rparr>"

definition hsv_png_pixel :: image where
  "hsv_png_pixel = hsv_pixel\<lparr>format := Some ''PNG''\<rparr>"

definition hsv_png_session :: modifier where
  "hsv_png_session = hsv_session\<lparr>image_handle := hsv_png_pixel, image_format := Some ''PNG''\<rparr>"

section \<open>The command-line front end (src/src/cli.py)\<close>

text \<open>
  \<open>run_commands\<close> receives the parsed commands: a name and an argparse namespace,
  whose \<open>vars(values).items()\<close> is a list of keys and values in insertion order.  A
  value is \<open>None\<close>, a string, a boolean (a \<open>store_true\<close> flag) or a list of strings
  (a flag with \<open>nargs\<close>).
\<close>

datatype nsval = NoneV | StrV string | BoolV bool | ListV "string list"

type_synonym namespace = "(string \<times> nsval) list"

text \<open>The dictionary \<open>image\<close> of \<open>run_commands\<close>.\<close>

record cli_image =
  input_name :: "string option"
  output_name :: "string option"
  handle :: "modifier option"

text \<open>
  \<open>image['handle'].method(...)\<close>: on \<open>None\<close> an AttributeError, otherwise the
  method changes the session in place.
\<close>

definition with_handle :: "cli_image \<Rightarrow> (modifier \<Rightarrow> error + modifier) \<Rightarrow> error + cli_image" where
  "with_handle image' m =
     (case handle image' of
        None \<Rightarrow> Inl (AttributeError ''NoneType object has no attribute'')
      | Some h \<Rightarrow> (case m h of Inl e \<Rightarrow> Inl e | Inr h' \<Rightarrow> Inr (image'\<lparr>handle := Some h'\<rparr>)))"

text \<open>\<open>v[i]\<close> on a namespace value.\<close>

definition subscript :: "nsval \<Rightarrow> nat \<Rightarrow> error + string" where
  "subscript v i =
     (case v of
        ListV ts \<Rightarrow> if i < length ts then Inr (ts ! i) else Inl IndexError
      | StrV s \<Rightarrow> if i < length s then Inr [s ! i] else Inl IndexError
      | BoolV b \<Rightarrow> Inl (TypeError ''bool object is not subscriptable'')
      | NoneV \<Rightarrow> Inl (TypeError ''NoneType object is not subscriptable''))"

text \<open>
  Python's \<open>float(text)\<close> is a parameter, \<open>py_float\<close>.
  \<open>float(t) if t not in ('mean', 'median') else t\<close>:
\<close>

definition float_or_keyword :: "(string \<Rightarrow> error + real) \<Rightarrow> string \<Rightarrow> error + param" where
  "float_or_keyword py_float t =
     (if t \<notin> set [''mean'', ''median'']
      then (case py_float t of Inl e \<Rightarrow> Inl e | Inr x \<Rightarrow> Inr (Num x))
      else Inr (Str t))"

text \<open>
  The body of the loop over \<open>vars(values).items()\<close>, for one key and value.  argparse
  gives \<open>input\<close> and \<open>output\<close> a string or \<open>None\<close>; another value is answered with
  a TypeError.
\<close>

definition process_item ::
  "externals \<Rightarrow> (string \<Rightarrow> error + real) \<Rightarrow> filesystem \<Rightarrow> bool \<Rightarrow> bool \<Rightarrow> string \<Rightarrow>
   cli_image \<Rightarrow> string \<times> nsval \<Rightarrow> error + cli_image" where
  "process_item E py_float fs debug' clamp' name image' kv =
     (case kv of (k, v) \<Rightarrow>
      if k \<in> set [''debug'', ''no_clamp''] then Inr image'
      else if k = ''input'' then
        (case v of
           NoneV \<Rightarrow> Inr image'
         | StrV p \<Rightarrow>
             if fs p \<noteq> None then
               (let image' = image'\<lparr>input_name := Some p\<rparr> in
                case handle image' of
                  None \<Rightarrow>
                    (case from_image fs p debug' of
                       Inl e \<Rightarrow> Inl e
                     | Inr h \<Rightarrow> Inr (image'\<lparr>handle := Some (set_clamp h clamp')\<rparr>))
                | Some h \<Rightarrow>
                    (case load_image fs h p of
                       Inl e \<Rightarrow> Inl e
                     | Inr h' \<Rightarrow> Inr (image'\<lparr>handle := Some h'\<rparr>)))
             else Inl (ValueError (''Input file '' @ p @ '' does not exist!''))
         | BoolV b \<Rightarrow> Inl (TypeError ''path should be string'')
         | ListV ts \<Rightarrow> Inl (TypeError ''path should be string''))
      else if k = ''output'' then
        (case v of
           NoneV \<Rightarrow> Inr image'
         | StrV p \<Rightarrow> Inr (image'\<lparr>output_name := Some p\<rparr>)
         | BoolV b \<Rightarrow> Inl (TypeError ''path should be string'')
         | ListV ts \<Rightarrow> Inl (TypeError ''path should be string''))
      else if name = ''invert'' then with_handle image' (\<lambda>h. invert E h [k])
      else if name = ''offset'' then
        (case subscript v 0 of
           Inl e \<Rightarrow> Inl e
         | Inr t \<Rightarrow>
             (case py_float t of
                Inl e \<Rightarrow> Inl e
              | Inr x \<Rightarrow> with_handle image' (\<lambda>h. offset E h [(k, x)])))
      else if name = ''scale'' then
        (case subscript v 0 of
           Inl e \<Rightarrow> Inl e
         | Inr t \<Rightarrow>
             (case py_float t of
                Inl e \<Rightarrow> Inl e
              | Inr x \<Rightarrow> with_handle image' (\<lambda>h. scale E h [(k, x)])))
      else if name = ''threshold'' then
        (case subscript v 0 of
           Inl e \<Rightarrow> Inl e
         | Inr t \<Rightarrow>
             (case float_or_keyword py_float t of
                Inl e \<Rightarrow> Inl e
              | Inr c \<Rightarrow> with_handle image' (\<lambda>h. threshold E h [(k, c)])))
      else if name = ''clamp'' then
        (case subscript v 0 of
           Inl e \<Rightarrow> Inl e
         | Inr m \<Rightarrow>
             (case subscript v 1 of
                Inl e \<Rightarrow> Inl e
              | Inr t \<Rightarrow>
                  (case float_or_keyword py_float t of
                     Inl e \<Rightarrow> Inl e
                   | Inr c \<Rightarrow> with_handle image' (\<lambda>h. clamp E h [(k, m, c)]))))
      else Inr image')"

fun process_items ::
  "externals \<Rightarrow> (string \<Rightarrow> error + real) \<Rightarrow> filesystem \<Rightarrow> bool \<Rightarrow> bool \<Rightarrow> string \<Rightarrow>
   cli_image \<Rightarrow> namespace \<Rightarrow> error + cli_image" where
  "process_items E py_float fs debug' clamp' name image' [] = Inr image'"
| "process_items E py_float fs debug' clamp' name image' (kv # kvs) =
     (case process_item E py_float fs debug' clamp' name image' kv of
        Inl e \<Rightarrow> Inl e
      | Inr image' \<Rightarrow> process_items E py_float fs debug' clamp' name image' kvs)"

text \<open>
  \<open>with open(path, 'rb') as f: image['handle'].save_image(f)\<close>.  Mode \<open>'rb'\<close> opens
  an existing file for reading: a missing file raises FileNotFoundError, and the file
  object is not writable.  What a save writes to the file object becomes the content
  of the file.
\<close>

definition open_rb :: "filesystem \<Rightarrow> string option \<Rightarrow> error + file_obj" where
  "open_rb fs path =
     (case path of
        None \<Rightarrow> Inl (TypeError ''expected str, bytes or os.PathLike object, not NoneType'')
      | Some p \<Rightarrow>
          (case fs p of
             None \<Rightarrow> Inl (FileNotFoundError p)
           | Some img \<Rightarrow> Inr \<lparr>writable = False, written = None\<rparr>))"

definition write_back :: "filesystem \<Rightarrow> string option \<Rightarrow> file_obj \<Rightarrow> filesystem" where
  "write_back fs path fp =
     (case (path, written fp) of
        (Some p, Some (f, img)) \<Rightarrow> fs(p \<mapsto> img\<lparr>format := Some f\<rparr>)
      | _ \<Rightarrow> fs)"

definition save_to ::
  "externals \<Rightarrow> filesystem \<Rightarrow> cli_image \<Rightarrow> (error + cli_image) \<times> filesystem" where
  "save_to E fs image' =
     (case open_rb fs (output_name image') of
        Inl e \<Rightarrow> (Inl e, fs)
      | Inr f \<Rightarrow>
          (case handle image' of
             None \<Rightarrow> (Inl (AttributeError ''NoneType object has no attribute''), fs)
           | Some h \<Rightarrow>
               (case save_image E h f ''default'' of
                  Inl e \<Rightarrow> (Inl e, fs)
                | Inr (h', f') \<Rightarrow>
                    (Inr (image'\<lparr>handle := Some h'\<rparr>), write_back fs (output_name image') f'))))"

text \<open>
  The loop over \<open>enumerate(commands)\<close>; \<open>n\<close> is \<open>len(commands)\<close> and \<open>ix\<close> the
  index of the first command of the list.
\<close>

fun run_loop ::
  "externals \<Rightarrow> (string \<Rightarrow> error + real) \<Rightarrow> bool \<Rightarrow> bool \<Rightarrow> int \<Rightarrow> int \<Rightarrow>
   filesystem \<Rightarrow> cli_image \<Rightarrow> (string \<times> namespace) list \<Rightarrow> (error + cli_image) \<times> filesystem" where
  "run_loop E py_float debug' clamp' n ix fs image' [] = (Inr image', fs)"
| "run_loop E py_float debug' clamp' n ix fs image' ((name, values) # commands) =
     (case process_items E py_float fs debug' clamp' name image' values of
        Inl e \<Rightarrow> (Inl e, fs)
      | Inr image' \<Rightarrow>
          if output_name image' \<noteq> None \<and> ix \<noteq> n - 1 then
            (case save_to E fs image' of
               (Inl e, fs) \<Rightarrow> (Inl e, fs)
             | (Inr image', fs) \<Rightarrow> run_loop E py_float debug' clamp' n (ix + 1) fs image' commands)
          else run_loop E py_float debug' clamp' n (ix + 1) fs image' commands)"

text \<open>
  \<open>run_commands\<close> returns the exception it ended with (\<open>None\<close> when it returned)
  and the file system it leaves.
\<close>

definition run_commands ::
  "externals \<Rightarrow> (string \<Rightarrow> error + real) \<Rightarrow> filesystem \<Rightarrow> (string \<times> namespace) list \<Rightarrow>
   bool \<Rightarrow> bool \<Rightarrow> error option \<times> filesystem" where
  "run_commands E py_float fs commands debug' clamp' =
     (case run_loop E py_float debug' clamp' (int (length commands)) 0 fs
             \<lparr>input_name = None, output_name = None, handle = None\<rparr> commands of
        (Inl e, fs) \<Rightarrow> (Some e, fs)
      | (Inr image', fs) \<Rightarrow>
          (let image' = (if output_name image' = None
                        then image'\<lparr>output_name := input_name image'\<rparr> else image')
           in case save_to E fs image' of
                (Inl e, fs) \<Rightarrow> (Some e, fs)
              | (Inr image', fs) \<Rightarrow> (None, fs)))"

text \<open>
  The chain \<open>invert in.png +r -o out.png offset +r 0.5\<close> on a file system that holds
  both files.
\<close>

definition two_files :: filesystem where
  "two_files = [''in.png'' \<mapsto> red_pixel, ''out.png'' \<mapsto> two_pixels]"

definition chain_with_output :: "(string \<times> namespace) list" where
  "chain_with_output =
     [(''invert'', [(''input'', StrV ''in.png''), (''output'', StrV ''out.png''),
                    (''no_clamp'', BoolV False), (''debug'', BoolV False),
                    (''red'', BoolV True)]),
      (''offset'', [(''input'', NoneV), (''output'', NoneV),
                    (''no_clamp'', BoolV False), (''debug'', BoolV False),
                    (''red'', ListV [''0.5''])])]"

definition float_of_text :: "string \<Rightarrow> error + real" where
  "float_of_text t =
     (case map_of [(''0'', 0), (''0.25'', 1 / 4), (''0.5'', 1 / 2)] t of
        Some x \<Rightarrow> Inr x
      | None \<Rightarrow> Inl (ValueError ''could not convert string to float''))"

section \<open>The legacy batch tool (src/convert.py)\<close>

text \<open>
  The script ends a run with \<open>quit(1)\<close> after printing a message: \<open>SystemExit\<close>.
  The names \<open>MIN\<close> and \<open>MAX\<close> of the source are written \<open>MIN'\<close> and \<open>MAX'\<close>.
\<close>

text \<open>\<open>s.split(sep)\<close> for a one-character separator, and \<open>s.split(sep, 1)\<close>.\<close>

fun split_on :: "char \<Rightarrow> string \<Rightarrow> string list" where
  "split_on sep [] = [[]]"
| "split_on sep (c # cs) =
     (if c = sep then [] # split_on sep cs
      else (case split_on sep cs of
              [] \<Rightarrow> [[c]]
            | p # ps \<Rightarrow> (c # p) # ps))"

definition split_once :: "char \<Rightarrow> string \<Rightarrow> string list" where
  "split_once sep s =
     (if sep \<in> set s
      then [takeWhile (\<lambda>c. c \<noteq> sep) s, tl (dropWhile (\<lambda>c. c \<noteq> sep) s)]
      else [s])"

subsection \<open>The constants\<close>

definition BEFORE :: int where "BEFORE = 1"
definition AFTER :: int where "AFTER = BEFORE + 1"
definition INVERT :: int where "INVERT = AFTER + 1"
definition OFFSET :: int where "OFFSET = INVERT + 1"
definition MIN' :: int where "MIN' = OFFSET + 1"
definition MAX' :: int where "MAX' = MIN' + 1"

definition string_to_mode :: "(string \<times> int) list" where
  "string_to_mode = [(''invert'', INVERT), (''offset'', OFFSET)]"

definition string_to_option :: "(string \<times> int) list" where
  "string_to_option =
     [(''b'', BEFORE), (''a'', AFTER), (''offset'', OFFSET), (''min'', MIN'), (''max'', MAX')]"

definition H :: int where "H = 1"
definition S :: int where "S = H + 1"
definition V :: int where "V = S + 1"
definition R :: int where "R = V + 1"
definition G :: int where "G = R + 1"
definition B :: int where "B = G + 1"
definition A :: int where "A = B + 1"

definition string_to_channel :: "(string \<times> int) list" where
  "string_to_channel =
     [(''h'', H), (''s'', S), (''v'', V), (''r'', R), (''g'', G), (''b'', B), (''a'', A)]"

subsection \<open>Reading the arguments\<close>

text \<open>
  A dictionary keeps its keys in insertion order; assigning to a key that is present
  keeps its place.
\<close>

fun dict_set :: "('k \<times> 'v) list \<Rightarrow> 'k \<Rightarrow> 'v \<Rightarrow> ('k \<times> 'v) list" where
  "dict_set [] k v = [(k, v)]"
| "dict_set ((k', v') # kvs) k v =
     (if k' = k then (k, v) # kvs else (k', v') # dict_set kvs k v)"

text \<open>The mode: lower-cased, then looked up.\<close>

definition parse_mode :: "string \<Rightarrow> error + int" where
  "parse_mode input_mode =
     (case map_of string_to_mode (lower input_mode) of
        None \<Rightarrow> Inl (SystemExit 1 (''Invalid Mode: '' @ lower input_mode))
      | Some m \<Rightarrow> Inr m)"

text \<open>
  The sub-mode: the channel letters, a colon, and the values separated by colons.  The
  loop runs over the letters with their index; a missing value is an IndexError that
  the script does not catch, and the message for a value that is not a number names a
  variable that is unbound in the first round.
\<close>

fun parse_channel_values ::
  "(string \<Rightarrow> error + real) \<Rightarrow> string \<Rightarrow> string list \<Rightarrow> nat \<Rightarrow> (int \<times> real) list \<Rightarrow>
   error + (int \<times> real) list" where
  "parse_channel_values py_float [] vals index d = Inr d"
| "parse_channel_values py_float (input_channel # rest) vals index d =
     (case map_of string_to_channel [input_channel] of
        None \<Rightarrow> Inl (SystemExit 1 (''Invalid Channel: '' @ [input_channel]))
      | Some ch \<Rightarrow>
          if index < length vals then
            (case py_float (vals ! index) of
               Inl e \<Rightarrow>
                 if index = 0 then Inl (NameError ''input_channel_value'')
                 else Inl (SystemExit 1 (''Invalid value in '' @ [input_channel]))
             | Inr x \<Rightarrow> parse_channel_values py_float rest vals (index + 1) (dict_set d ch x))
          else Inl IndexError)"

definition parse_channels :: "(string \<Rightarrow> error + real) \<Rightarrow> string \<Rightarrow> error + (int \<times> real) list" where
  "parse_channels py_float input_channels =
     (case split_once CHR '':'' (lower input_channels) of
        [letters, input_channel_values] \<Rightarrow>
          parse_channel_values py_float letters (split_on CHR '':'' input_channel_values) 0 []
      | _ \<Rightarrow> Inl (ValueError ''not enough values to unpack''))"

text \<open>
  One option token, added to the dictionary of options: its key is
  \<open>option_time | option_operation\<close>.
\<close>

definition parse_option ::
  "(string \<Rightarrow> error + real) \<Rightarrow> (int \<times> (int \<times> real) list) list \<Rightarrow> string \<Rightarrow>
   error + (int \<times> (int \<times> real) list) list" where
  "parse_option py_float input_option_dict input_option =
     (case split_on CHR '':'' input_option of
        [option_info, option_value_string] \<Rightarrow>
          if length option_info < 2 then Inl IndexError
          else
            (let option_channel_string = [option_info ! 0];
                 option_time_string = [option_info ! 1];
                 option_operation_string = drop 2 option_info
             in case map_of string_to_channel option_channel_string of
                  None \<Rightarrow> Inl (SystemExit 1 (''Invalid Channel '' @ option_channel_string))
                | Some option_channel \<Rightarrow>
                    (case map_of string_to_option option_time_string of
                       None \<Rightarrow> Inl (SystemExit 1 (''Invalid Option Time '' @ option_time_string))
                     | Some option_time \<Rightarrow>
                         (case map_of string_to_option option_operation_string of
                            None \<Rightarrow>
                              Inl (SystemExit 1 (''Invalid Option Method '' @ option_operation_string))
                          | Some option_operation \<Rightarrow>
                              (let option = option_time OR option_operation
                               in case py_float option_value_string of
                                    Inl e \<Rightarrow>
                                      Inl (SystemExit 1 (''Invalid Option Value '' @ option_value_string))
                                  | Inr option_value \<Rightarrow>
                                      (let entries = (case map_of input_option_dict option of
                                                        None \<Rightarrow> [] | Some l \<Rightarrow> l)
                                       in if (option_channel, option_value) \<in> set entries
                                          then Inl (SystemExit 1 (''Duplicated Option: '' @ input_option))
                                          else Inr (dict_set input_option_dict option
                                                      (entries @ [(option_channel, option_value)])))))))
      | _ \<Rightarrow> Inl (SystemExit 1 ''Malformed Option Input: {input_option}''))"

fun parse_options ::
  "(string \<Rightarrow> error + real) \<Rightarrow> (int \<times> (int \<times> real) list) list \<Rightarrow> string list \<Rightarrow>
   error + (int \<times> (int \<times> real) list) list" where
  "parse_options py_float d [] = Inr d"
| "parse_options py_float d (input_option # rest) =
     (case parse_option py_float d (lower input_option) of
        Inl e \<Rightarrow> Inl e
      | Inr d \<Rightarrow> parse_options py_float d rest)"

subsection \<open>The editor\<close>

text \<open>
  What \<open>transform_pixels\<close> does to the pixels is not modelled: a call of it is recorded
  with the value method, the channel and the values it is given.  Loading an input
  image and saving to an output path are recorded too.
\<close>

datatype value_method = offset_value | invert_value | min_clamp_value | max_clamp_value

datatype event =
    Load string
  | Transform value_method int "real list list"
  | Save string string

record image_editor =
  editor_mode :: int
  channels :: "(int \<times> real) list"
  options :: "(int \<times> (int \<times> real) list) list"
  images :: "(string \<times> string list) list"

definition perform_operation :: "int \<Rightarrow> int \<Rightarrow> real list \<Rightarrow> error + event list" where
  "perform_operation operation channel value =
     (if operation AND OFFSET = OFFSET then Inr [Transform offset_value channel [value]]
      else if operation AND INVERT = INVERT then Inr [Transform invert_value channel [value]]
      else if operation AND MIN' = MIN' then Inr [Transform min_clamp_value channel [value]]
      else if operation AND MAX' = MAX' then Inr [Transform max_clamp_value channel [value]]
      else Inl NotImplementedException)"

text \<open>The inner loops: one operation on each pair of a channel and a value.\<close>

fun perform_each :: "int \<Rightarrow> (int \<times> real) list \<Rightarrow> error + event list" where
  "perform_each operation [] = Inr []"
| "perform_each operation ((channel, value) # rest) =
     (case perform_operation operation channel [value] of
        Inl e \<Rightarrow> Inl e
      | Inr evs \<Rightarrow>
          (case perform_each operation rest of
             Inl e \<Rightarrow> Inl e
           | Inr evs' \<Rightarrow> Inr (evs @ evs')))"

text \<open>
  \<open>perform_pre_operations\<close> skips an option unless \<open>option & B == B\<close>, and
  \<open>perform_post_operations\<close> unless \<open>option & A == A\<close>.
\<close>

fun perform_pre_operations :: "(int \<times> (int \<times> real) list) list \<Rightarrow> error + event list" where
  "perform_pre_operations [] = Inr []"
| "perform_pre_operations ((option, entries) # rest) =
     (if option AND B \<noteq> B then perform_pre_operations rest
      else (case perform_each option entries of
              Inl e \<Rightarrow> Inl e
            | Inr evs \<Rightarrow>
                (case perform_pre_operations rest of
                   Inl e \<Rightarrow> Inl e
                 | Inr evs' \<Rightarrow> Inr (evs @ evs'))))"

definition perform_operations :: "image_editor \<Rightarrow> error + event list" where
  "perform_operations self = perform_each (editor_mode self) (channels self)"

fun perform_post_operations :: "(int \<times> (int \<times> real) list) list \<Rightarrow> error + event list" where
  "perform_post_operations [] = Inr []"
| "perform_post_operations ((option, entries) # rest) =
     (if option AND A \<noteq> A then perform_post_operations rest
      else (case perform_each option entries of
              Inl e \<Rightarrow> Inl e
            | Inr evs \<Rightarrow>
                (case perform_post_operations rest of
                   Inl e \<Rightarrow> Inl e
                 | Inr evs' \<Rightarrow> Inr (evs @ evs'))))"

text \<open>The body of the loop of \<open>transform_images\<close> for one input image, and the loop.\<close>

definition transform_image :: "image_editor \<Rightarrow> string \<Rightarrow> string list \<Rightarrow> error + event list" where
  "transform_image self input_image outputs =
     (case perform_pre_operations (options self) of
        Inl e \<Rightarrow> Inl e
      | Inr pre \<Rightarrow>
          (case perform_operations self of
             Inl e \<Rightarrow> Inl e
           | Inr main \<Rightarrow>
               (case perform_post_operations (options self) of
                  Inl e \<Rightarrow> Inl e
                | Inr post \<Rightarrow>
                    Inr ([Load input_image] @ pre @ main @ post
                         @ map (\<lambda>output_name. Save input_image output_name) outputs))))"

fun transform_each :: "image_editor \<Rightarrow> (string \<times> string list) list \<Rightarrow> error + event list" where
  "transform_each self [] = Inr []"
| "transform_each self ((input_image, outputs) # rest) =
     (case transform_image self input_image outputs of
        Inl e \<Rightarrow> Inl e
      | Inr evs \<Rightarrow>
          (case transform_each self rest of
             Inl e \<Rightarrow> Inl e
           | Inr evs' \<Rightarrow> Inr (evs @ evs')))"

definition transform_images :: "image_editor \<Rightarrow> error + event list" where
  "transform_images self = transform_each self (images self)"

text \<open>
  The script from the mode, the sub-mode and the option tokens to the run of the
  editor; the image map is taken as checked.
\<close>

definition legacy_run ::
  "(string \<Rightarrow> error + real) \<Rightarrow> string \<Rightarrow> string \<Rightarrow> string list \<Rightarrow> (string \<times> string list) list \<Rightarrow>
   error + event list" where
  "legacy_run py_float input_mode input_channels input_options input_images =
     (case parse_mode input_mode of
        Inl e \<Rightarrow> Inl e
      | Inr m \<Rightarrow>
          (case parse_channels py_float input_channels of
             Inl e \<Rightarrow> Inl e
           | Inr chs \<Rightarrow>
               (case parse_options py_float [] input_options of
                  Inl e \<Rightarrow> Inl e
                | Inr opts \<Rightarrow>
                    transform_images
                      \<lparr>editor_mode = m, channels = chs, options = opts,
                       images = input_images\<rparr>)))"

section \<open>The HTTP service (src/api/main.py)\<close>

text \<open>
  Bytes are what a request carries and what a buffer holds: raw bytes, or the encoding
  of an image in a container format.  \<open>Image.open\<close> on the encoding of an image gives
  that image back with its format; \<open>BytesIO.getvalue\<close> gives what was saved into the
  buffer.
\<close>

datatype bytes = Empty | Raw string | Encoded string image

definition pil_open_bytes :: "bytes \<Rightarrow> error + image" where
  "pil_open_bytes b =
     (case b of
        Encoded f img \<Rightarrow> Inr (img\<lparr>format := Some f\<rparr>)
      | Raw s \<Rightarrow> Inl (OSError ''cannot identify image file'')
      | Empty \<Rightarrow> Inl (OSError ''cannot identify image file''))"

definition getvalue :: "file_obj \<Rightarrow> bytes" where
  "getvalue fp = (case written fp of None \<Rightarrow> Empty | Some (f, img) \<Rightarrow> Encoded f img)"

text \<open>
  What the service calls outside the repository: base64, \<open>requests.get\<close> (status code,
  text and content of the answer), Python's \<open>float\<close> on a string, and the values of
  \<open>SUPPORTED_IMAGE_TYPES\<close>, which come from PIL's registry of extensions.
\<close>

record service_env =
  mimetypes :: "string list"
  b64decode :: "string \<Rightarrow> error + bytes"
  b64encode :: "bytes \<Rightarrow> string"
  requests_get :: "string \<Rightarrow> nat \<times> string \<times> bytes"
  float_of_str :: "string \<Rightarrow> error + real"

text \<open>The calls that leave the process or touch data are recorded, oldest first.\<close>

datatype effect = HttpGet string | Base64Decode string | ImageOpen bytes

definition parse_file :: "service_env \<Rightarrow> string \<Rightarrow> (error + bytes) \<times> effect list" where
  "parse_file W data =
     (if CHR '','' \<notin> set data
      then (Inl (HTTPException 400 ''Invalid data format; Must be prepended by type''), [])
      else case split_on CHR '','' data of
        [content_type, content_string] \<Rightarrow>
          if startswith content_type ''file:''
          then (Inl (HTTPException 403 ''Tried to access a local server resource''), [])
          else if startswith content_type ''data:'' then
            (case str_index content_type '':'' of
               Inl e \<Rightarrow> (Inl e, [])
             | Inr i \<Rightarrow>
                 (case str_index content_type '';'' of
                    Inl e \<Rightarrow> (Inl e, [])
                  | Inr j \<Rightarrow>
                      (let mimetype = take (j - (i + 1)) (drop (i + 1) content_type)
                       in if mimetype \<notin> set (mimetypes W)
                          then (Inl (HTTPException 400 (''Unsupported mimetype: '' @ mimetype)), [])
                          else if endswith content_type '';base64''
                          then (b64decode W content_string, [Base64Decode content_string])
                          else (Inl (HTTPException 400 (content_type @ '' decoding not implemented'')),
                                []))))
          else if content_type = ''url'' then
            (case requests_get W content_string of
               (status_code, text, content) \<Rightarrow>
                 if status_code \<noteq> 200
                 then (Inl (HTTPException status_code text), [HttpGet content_string])
                 else (Inr content, [HttpGet content_string]))
          else (Inl (HTTPException 400 (''Invalid data format: '' @ content_type)), [])
      | _ \<Rightarrow> (Inl (ValueError ''too many values to unpack (expected 2)''), []))"

text \<open>
  \<open>encode_output\<close> has one parameter, a buffer.  A call passes a list of arguments:
  with another number of arguments Python raises TypeError before the body runs, and
  the body calls \<open>getvalue\<close> on its argument.
\<close>

datatype pyarg = BytesIOArg file_obj | BytesArg bytes | StrArg string

definition encode_output :: "service_env \<Rightarrow> pyarg list \<Rightarrow> error + string" where
  "encode_output W args =
     (case args of
        [output_buffer] \<Rightarrow>
          (case output_buffer of
             BytesIOArg fp \<Rightarrow> Inr (''data:image/png;base64,'' @ b64encode W (getvalue fp))
           | BytesArg b \<Rightarrow> Inl (AttributeError ''bytes object has no attribute getvalue'')
           | StrArg s \<Rightarrow> Inl (AttributeError ''str object has no attribute getvalue''))
      | _ \<Rightarrow> Inl (TypeError ''encode_output() takes 1 positional argument but 2 were given''))"

text \<open>
  The parameters of a request are JSON values.  \<open>float(p)\<close>, the unpacking of a value
  into \<open>n\<close> names, and whether the Python value can be a dictionary key:
\<close>

datatype json = JNull | JBool bool | JNum real | JStr string | JList "json list"

definition float_of_json :: "service_env \<Rightarrow> json \<Rightarrow> error + real" where
  "float_of_json W p =
     (case p of
        JNum x \<Rightarrow> Inr x
      | JBool b \<Rightarrow> Inr (if b then 1 else 0)
      | JStr s \<Rightarrow> float_of_str W s
      | JNull \<Rightarrow> Inl (TypeError ''float() argument must be a string or a real number'')
      | JList l \<Rightarrow> Inl (TypeError ''float() argument must be a string or a real number''))"

definition unpack :: "nat \<Rightarrow> json \<Rightarrow> error + json list" where
  "unpack n p =
     (case p of
        JList l \<Rightarrow> if length l = n then Inr l else Inl (ValueError ''wrong number of values to unpack'')
      | JStr s \<Rightarrow>
          if length s = n then Inr (map (\<lambda>c. JStr [c]) s)
          else Inl (ValueError ''wrong number of values to unpack'')
      | JNum x \<Rightarrow> Inl (TypeError ''cannot unpack non-iterable object'')
      | JBool b \<Rightarrow> Inl (TypeError ''cannot unpack non-iterable object'')
      | JNull \<Rightarrow> Inl (TypeError ''cannot unpack non-iterable object''))"

fun hashable :: "json \<Rightarrow> bool" where
  "hashable (JList l) = False"
| "hashable j = True"

text \<open>A list comprehension: the first exception ends it.\<close>

fun comprehension :: "('a \<Rightarrow> error + 'b) \<Rightarrow> 'a list \<Rightarrow> error + 'b list" where
  "comprehension g [] = Inr []"
| "comprehension g (x # xs) =
     (case g x of
        Inl e \<Rightarrow> Inl e
      | Inr y \<Rightarrow> (case comprehension g xs of Inl e \<Rightarrow> Inl e | Inr ys \<Rightarrow> Inr (y # ys)))"

definition keyword_or_float :: "service_env \<Rightarrow> json \<Rightarrow> error + param" where
  "keyword_or_float W c =
     (case c of
        JStr s \<Rightarrow>
          if s \<notin> set [''mean'', ''median'']
          then (case float_of_json W c of Inl e \<Rightarrow> Inl e | Inr x \<Rightarrow> Inr (Num x))
          else Inr (Str s)
      | _ \<Rightarrow> (case float_of_json W c of Inl e \<Rightarrow> Inl e | Inr x \<Rightarrow> Inr (Num x)))"

text \<open>
  \<open>do_operation\<close>.  For \<open>clamp\<close> the engine receives pairs of a channel and a triple
  where it unpacks triples, so its loop raises ValueError on the first pair.  For
  \<open>threshold\<close> it receives pairs of a channel and a pair, so the color of its first round
  is a tuple: after \<open>u_pre\<close> the lookup in the keyword table raises KeyError, or TypeError
  when the tuple holds a list.
\<close>

definition do_operation ::
  "externals \<Rightarrow> service_env \<Rightarrow> modifier \<Rightarrow> string \<Rightarrow> string list \<Rightarrow> json list option \<Rightarrow>
   error + modifier" where
  "do_operation E W handle' operation chs params' =
     (if operation = ''invert'' then invert E handle' chs
      else if operation = ''offset'' \<or> operation = ''scale'' then
        (case params' of
           None \<Rightarrow> Inl (TypeError ''NoneType object is not iterable'')
         | Some ps \<Rightarrow>
             (case comprehension (float_of_json W) ps of
                Inl e \<Rightarrow> Inl e
              | Inr xs \<Rightarrow>
                  if operation = ''offset'' then offset E handle' (zip chs xs)
                  else scale E handle' (zip chs xs)))
      else if operation = ''clamp'' then
        (case params' of
           None \<Rightarrow> Inl (TypeError ''NoneType object is not iterable'')
         | Some ps \<Rightarrow>
             (case comprehension
                     (\<lambda>p. case unpack 3 p of
                             Inl e \<Rightarrow> Inl e
                           | Inr abc \<Rightarrow>
                               (case keyword_or_float W (abc ! 2) of
                                  Inl e \<Rightarrow> Inl e
                                | Inr c \<Rightarrow> Inr (abc ! 0, abc ! 1, c))) ps of
                Inl e \<Rightarrow> Inl e
              | Inr triples \<Rightarrow>
                  if zip chs triples = [] then Inr handle'
                  else Inl (ValueError ''not enough values to unpack (expected 3, got 2)'')))
      else if operation = ''threshold'' then
        (case params' of
           None \<Rightarrow> Inl (TypeError ''NoneType object is not iterable'')
         | Some ps \<Rightarrow>
             (case comprehension
                     (\<lambda>p. case unpack 2 p of
                             Inl e \<Rightarrow> Inl e
                           | Inr ab \<Rightarrow>
                               (case keyword_or_float W (ab ! 1) of
                                  Inl e \<Rightarrow> Inl e
                                | Inr c \<Rightarrow> Inr (ab ! 0, c))) ps of
                Inl e \<Rightarrow> Inl e
              | Inr pairs \<Rightarrow>
                  (case zip chs pairs of
                     [] \<Rightarrow> Inr handle'
                   | (channel, (a, b)) # rest \<Rightarrow>
                       (case u_pre E handle' channel of
                          Inl e \<Rightarrow> Inl e
                        | Inr r \<Rightarrow>
                            if hashable a then Inl KeyError
                            else Inl (TypeError ''unhashable type: list'')))))
      else Inl (HTTPException 400 (''Unsupported operation: '' @ operation)))"

text \<open>The request model \<open>Operation\<close>.\<close>

record operation =
  op_auto_clamp :: bool
  action :: string
  op_channels :: "string list"
  params :: "json list option"
  op_input :: "(string \<times> string) list option"
  op_output_format :: "string option"

text \<open>
  The body of the loop of \<open>api_operation\<close> for one input, up to the point where the
  image has been saved into the output buffer and closed: it gives the buffer.
\<close>

definition render_input ::
  "externals \<Rightarrow> service_env \<Rightarrow> operation \<Rightarrow> string \<Rightarrow> (error + file_obj) \<times> effect list" where
  "render_input E W data input_data =
     (case parse_file W input_data of
        (Inl e, effs) \<Rightarrow> (Inl e, effs)
      | (Inr raw_input, effs) \<Rightarrow>
          (case pil_open_bytes raw_input of
             Inl e \<Rightarrow> (Inl e, effs @ [ImageOpen raw_input])
           | Inr input_handle \<Rightarrow>
               (let output_handle = \<lparr>writable = True, written = None\<rparr>
                in case init_modifier input_handle (op_auto_clamp data) False of
                     Inl e \<Rightarrow> (Inl e, effs @ [ImageOpen raw_input])
                   | Inr convert' \<Rightarrow>
                       (case do_operation E W convert' (action data) (op_channels data)
                               (params data) of
                          Inl e \<Rightarrow> (Inl e, effs @ [ImageOpen raw_input])
                        | Inr convert' \<Rightarrow>
                            (case save_image E convert' output_handle ''default'' of
                               Inl e \<Rightarrow> (Inl e, effs @ [ImageOpen raw_input])
                             | Inr (convert', output_handle) \<Rightarrow>
                                 (Inr output_handle, effs @ [ImageOpen raw_input]))))))"

text \<open>
  The loop over the inputs.  After the save the handler calls \<open>encode_output\<close> with
  two arguments, the bytes of the buffer and the output format.
\<close>

fun api_operation_loop ::
  "externals \<Rightarrow> service_env \<Rightarrow> operation \<Rightarrow> (string \<times> string) list \<Rightarrow> (string \<times> string) list \<Rightarrow>
   (error + (string \<times> string) list) \<times> effect list" where
  "api_operation_loop E W data files [] = (Inr files, [])"
| "api_operation_loop E W data files ((input_name', input_data) # rest) =
     (case render_input E W data input_data of
        (Inl e, effs) \<Rightarrow> (Inl e, effs)
      | (Inr output_handle, effs) \<Rightarrow>
          (let data = (if op_output_format data = None
                       then data\<lparr>op_output_format := Some ''default''\<rparr> else data)
           in case encode_output W
                     [BytesArg (getvalue output_handle),
                      StrArg (case op_output_format data of None \<Rightarrow> [] | Some f \<Rightarrow> f)] of
                Inl e \<Rightarrow> (Inl e, effs)
              | Inr output_data \<Rightarrow>
                  (case api_operation_loop E W data (dict_set files input_name' output_data) rest of
                     (r, effs') \<Rightarrow> (r, effs @ effs'))))"

definition api_operation ::
  "externals \<Rightarrow> service_env \<Rightarrow> operation \<Rightarrow> (error + (string \<times> string) list) \<times> effect list" where
  "api_operation E W data =
     (case op_input data of
        None \<Rightarrow> (Inl (HTTPException 400 ''Must specify input file / files''), [])
      | Some inputs \<Rightarrow>
          if action data \<notin> set SUPPORTED_OPERATIONS
          then (Inl (HTTPException 400 (''Unsupported operation: '' @ action data)), [])
          else case find (\<lambda>c. c \<notin> set SUPPORTED_COLOR_CHANNEL_SHORTHANDS) (op_channels data) of
                 Some c \<Rightarrow> (Inl (HTTPException 400 (''Unsupported channel: '' @ c)), [])
               | None \<Rightarrow> api_operation_loop E W data [] inputs)"

subsection \<open>The requests of the examples\<close>

text \<open>
  The base64 text of a PNG file that holds one red pixel, an environment in which it
  decodes to the encoding of \<open>red_pixel\<close> (base64 is given on that one text only, and
  no address answers), and the requests.  The inverted image is
  what \<open>Image.merge\<close> makes of the three planes after the inversion.
\<close>

definition red_payload :: string where
  "red_payload =
     ''iVBORw0KGgoAAAANSUhEUgAAAAEAAAABCAIAAACQd1PeAAAADElEQVR42mP4z8AAAAMBAQD3A0FDAAAAAElFTkSuQmCC''"

definition reference_service :: service_env where
  "reference_service =
     \<lparr>mimetypes = [''image/png'', ''image/jpeg'', ''image/gif'', ''image/bmp''],
      b64decode = (\<lambda>s. if s = red_payload then Inr (Encoded ''PNG'' red_pixel)
                         else Inl (ValueError ''Incorrect padding'')),
      b64encode = (\<lambda>b. if b = Encoded ''PNG'' red_pixel then red_payload else []),
      requests_get = (\<lambda>url. (404, ''Not Found'', Empty)),
      float_of_str = float_of_text\<rparr>"

definition invert_red_request :: operation where
  "invert_red_request =
     \<lparr>op_auto_clamp = False, action = ''invert'', op_channels = [''r''], params = None,
      op_input = Some [(''img'', ''data:image/png;base64,'' @ red_payload)],
      op_output_format = None\<rparr>"

definition black_pixel :: image where
  "black_pixel = \<lparr>mode = ''RGB'', planes = [[0], [0], [0]], format = None\<rparr>"

definition local_file_request :: operation where
  "local_file_request =
     \<lparr>op_auto_clamp = False, action = ''invert'', op_channels = [''r''], params = None,
      op_input = Some [(''img'', ''file:/etc/passwd,x'')],
      op_output_format = None\<rparr>"

definition local_file_no_comma_request :: operation where
  "local_file_no_comma_request =
     \<lparr>op_auto_clamp = False, action = ''invert'', op_channels = [''r''], params = None,
      op_input = Some [(''img'', ''file:/etc/passwd'')],
      op_output_format = None\<rparr>"

section \<open>The rounding\<close>

text \<open>
  \<open>ilog2\<close> gives the binade of a positive number, and \<open>fl q\<close> lies within half a
  unit in the last place of \<open>q\<close>: half of \<open>2 ^ (ilog2 \<bar>q\<bar> - 52)\<close>, the distance
  between neighbouring doubles in the binade of \<open>q\<close>.
\<close>

lemma ilog2_binade:
  assumes "0 < q"
  shows "2 powi (ilog2 q) \<le> q \<and> q < 2 powi (ilog2 q + 1)"
proof (cases "1 \<le> q")
  case True
  define n where "n = \<lfloor>q\<rfloor>"
  have n: "0 < n" "of_int n \<le> q" "q < of_int n + 1"
    using True by (auto simp: n_def)
  have bl: "(2::int) ^ nat (bitlen n - 1) \<le> n" "n < 2 ^ nat (bitlen n)"
    using bitlen_bounds [OF n(1)] by auto
  have pos: "1 \<le> bitlen n"
    using n(1) by (simp add: bitlen_alt_def)
  have "(2::real) ^ nat (bitlen n - 1) \<le> of_int n"
    using bl(1) by (metis of_int_le_iff of_int_numeral of_int_power)
  moreover have "of_int n + 1 \<le> (2::real) ^ nat (bitlen n)"
  proof -
    have "n + 1 \<le> 2 ^ nat (bitlen n)" using bl(2) by simp
    then have "of_int (n + 1) \<le> (of_int (2 ^ nat (bitlen n)) :: real)"
      by (simp only: of_int_le_iff)
    then show ?thesis by simp
  qed
  ultimately have "(2::real) ^ nat (bitlen n - 1) \<le> q" and "q < (2::real) ^ nat (bitlen n)"
    using n(2,3) by linarith+
  then show ?thesis
    using True pos by (simp add: ilog2_def n_def [symmetric] power_int_def)
next
  case False
  define m where "m = \<lceil>1 / q\<rceil>"
  have q1: "1 < 1 / q" using assms False by simp
  have m: "1 < m" "1 / q \<le> of_int m" "of_int m - 1 < 1 / q"
    using q1 by (auto simp: m_def) linarith+
  have m1: "0 < m - 1" using m(1) by simp
  have bl: "(2::int) ^ nat (bitlen (m - 1) - 1) \<le> m - 1" "m - 1 < 2 ^ nat (bitlen (m - 1))"
    using bitlen_bounds [OF m1] by auto
  have pos: "1 \<le> bitlen (m - 1)"
    using m1 by (simp add: bitlen_alt_def)
  define k where "k = bitlen (m - 1)"
  have "m \<le> 2 ^ nat k"
    using bl(2) by (simp add: k_def)
  then have "real_of_int m \<le> real_of_int (2 ^ nat k)"
    by (simp only: of_int_le_iff)
  then have "real_of_int m \<le> 2 ^ nat k"
    by (simp only: of_int_power of_int_numeral)
  then have up: "1 / q \<le> 2 ^ nat k"
    using m(2) by linarith
  have "real_of_int (2 ^ nat (k - 1)) \<le> real_of_int (m - 1)"
    using bl(1) by (simp only: of_int_le_iff k_def)
  then have "(2::real) ^ nat (k - 1) \<le> real_of_int m - 1"
    by (simp only: of_int_power of_int_numeral of_int_diff of_int_1)
  then have lo: "2 ^ nat (k - 1) < 1 / q"
    using m(3) by linarith
  have a: "2 powi (- k) \<le> q"
  proof -
    have "1 / 2 ^ nat k \<le> 1 / (1 / q)"
      using up q1 by (intro divide_left_mono) (auto simp: assms)
    then show ?thesis
      using pos by (simp add: power_int_def k_def inverse_eq_divide power_one_over)
  qed
  have b: "q < 2 powi (- k + 1)"
  proof -
    have "1 / (1 / q) < 1 / 2 ^ nat (k - 1)"
      using lo assms by (intro divide_strict_left_mono) auto
    then have "q < 1 / 2 ^ nat (k - 1)" by simp
    moreover have "2 powi (- k + 1) = 1 / (2::real) ^ nat (k - 1)"
    proof -
      have "- k + 1 = - (k - 1)" by simp
      then show ?thesis
        using pos by (simp only: power_int_minus) (simp add: power_int_def k_def inverse_eq_divide)
    qed
    ultimately show ?thesis by simp
  qed
  show ?thesis
    using False a b by (simp add: ilog2_def m_def [symmetric] k_def)
qed

lemma round_half_even_close: "\<bar>of_int (round_half_even m) - m\<bar> \<le> 1 / 2"
proof -
  have "of_int \<lfloor>m\<rfloor> \<le> m" "m < of_int \<lfloor>m\<rfloor> + 1"
    by linarith+
  then show ?thesis
    by (auto simp: round_half_even_def Let_def)
qed

lemma fl_close:
  assumes "q \<noteq> 0"
  shows "\<bar>fl q - q\<bar> \<le> 2 powi (ilog2 \<bar>q\<bar> - 53)"
proof -
  define e where "e = ilog2 \<bar>q\<bar> - 52"
  define p :: real where "p = 2 powi e"
  have p: "0 < p" by (simp add: p_def)
  have p_alt: "(if 0 \<le> e then 2 ^ nat e else 1 / 2 ^ nat (- e)) = p"
    by (simp add: p_def power_int_def inverse_eq_divide power_one_over)
  define n where "n = round_half_even (\<bar>q\<bar> / p)"
  have fl: "fl q = sgn q * of_int n * p"
    using assms by (simp add: fl_def Let_def e_def [symmetric] p_alt n_def)
  have "\<bar>of_int n - \<bar>q\<bar> / p\<bar> \<le> 1 / 2"
    unfolding n_def by (rule round_half_even_close)
  then have "\<bar>of_int n - \<bar>q\<bar> / p\<bar> * p \<le> 1 / 2 * p"
    using p by (intro mult_right_mono) auto
  moreover have "\<bar>of_int n - \<bar>q\<bar> / p\<bar> * p = \<bar>of_int n * p - \<bar>q\<bar>\<bar>"
  proof -
    have "\<bar>of_int n - \<bar>q\<bar> / p\<bar> * p = \<bar>(of_int n - \<bar>q\<bar> / p) * p\<bar>"
      using p by (simp add: abs_mult)
    also have "(of_int n - \<bar>q\<bar> / p) * p = of_int n * p - \<bar>q\<bar>"
      using p by (simp add: field_simps)
    finally show ?thesis .
  qed
  moreover have "\<bar>fl q - q\<bar> = \<bar>of_int n * p - \<bar>q\<bar>\<bar>"
  proof (cases "0 < q")
    case True
    then show ?thesis by (simp add: fl)
  next
    case False
    then have "q < 0" using assms by simp
    then have "fl q - q = - (of_int n * p - \<bar>q\<bar>)"
      by (simp add: fl)
    then show ?thesis by (simp only: abs_minus_cancel)
  qed
  moreover have "1 / 2 * p = 2 powi (ilog2 \<bar>q\<bar> - 53)"
  proof -
    have "ilog2 \<bar>q\<bar> - 53 = e - 1" by (simp add: e_def)
    then show ?thesis
      by (simp add: p_def power_int_diff)
  qed
  ultimately show ?thesis by simp
qed

section \<open>Evaluating the arithmetic\<close>

text \<open>
  Closed terms are evaluated by rewriting with the definitions; \<open>bitlen\<close> is unfolded
  on numerals only.
\<close>

lemma bitlen_numeral:
  "bitlen (numeral w) = (if 0 < (numeral w :: int) then bitlen (numeral w div 2) + 1 else 0)"
  by (rule compute_bitlen)

lemma bitlen_one: "bitlen 1 = 1"
  by (simp add: compute_bitlen)

lemmas float_eval = bitlen_numeral bitlen_one ilog2_def fl_def round_half_even_def trunc_def
  astype_uint8_def fadd_def fsub_def fmul_def fdiv_def fmin_def fmax_def Let_def

lemma byte_255_normalised: "fdiv 255 255 = 1"
  by (simp add: float_eval)

lemma byte_0_normalised: "fdiv 0 255 = 0"
  by (simp add: float_eval)

lemma one_minus_one: "fsub 1 1 = 0"
  by (simp add: float_eval)

lemma zero_to_byte: "astype_uint8 (fmul 0 255) = 0"
  by (simp add: float_eval)

lemma upper_r: "upper ''r'' = ''R''"
  by (simp add: upper_def upper_char_def)

lemma init_red_pixel: "init_modifier red_pixel False False = Inr red_session"
  by (simp add: init_modifier_def red_pixel_def red_session_def SUPPORTED_PIL_MODES_def)

lemma invert_red_pixel: "invert E red_session [''r''] = Inr red_inverted_session"
  by (simp add: u_pre_def u_post_def u_get_channel_def u_set_channel_def str_contains_def
      str_index_def startswith_def upper_def upper_char_def red_session_def red_pixel_def
      red_inverted_session_def byte_255_normalised one_minus_one zero_to_byte)

section \<open>Numeric parameters of threshold and clamp\<close>

lemma keyword_lookup_Num: "keyword_lookup E (Num x) = None"
  by (simp add: keyword_lookup_def)

lemma numeric_on_red_pixel:
  "threshold E red_session [(''r'', Num (1 / 2))] = Inl KeyError
   \<and> clamp E red_session [(''r'', ''min'', Num (1 / 2))] = Inl (ValueError ''Invalid clamp color'')"
  by (simp add: keyword_lookup_def u_pre_def u_get_channel_def str_contains_def str_index_def
      startswith_def upper_def upper_char_def red_session_def red_pixel_def
      byte_255_normalised)

text \<open>
  C2.  The claim: \<open>threshold\<close> and \<open>clamp\<close> accept a numeric value as well as an
  aggregate keyword, and a numeric literal yields the elementwise result rather than a
  failure.  In the code a numeric parameter never yields a result: \<open>threshold\<close>
  indexes the keyword table with it (KeyError) and \<open>clamp\<close> rejects every
  parameter that is not a key of the table (ValueError), for every session, every
  channel and every number.  On the red channel of the one-pixel image, with the
  parameter 0.5, these are the exceptions raised.
\<close>

theorem numeric_parameter_always_fails:
  "isl (threshold E self ((channel, Num x) # rest))
   \<and> isl (clamp E self ((channel, mode', Num x) # rest'))
   \<and> threshold E red_session [(''r'', Num (1 / 2))] = Inl KeyError
   \<and> clamp E red_session [(''r'', ''min'', Num (1 / 2))]
       = Inl (ValueError ''Invalid clamp color'')"
proof -
  have "isl (threshold E self ((channel, Num x) # rest))"
    by (simp add: keyword_lookup_Num split: sum.split prod.split)
  moreover have "isl (clamp E self ((channel, mode', Num x) # rest'))"
    by (simp add: keyword_lookup_Num split: sum.split prod.split)
  ultimately show ?thesis
    using numeric_on_red_pixel [of E] by blast
qed

section \<open>What the operations leave unchanged\<close>

lemma u_close_channels_keeps:
  "u_close_channels s = Inr s' \<Longrightarrow>
     image_format s' = image_format s \<and> auto_clamp s' = auto_clamp s
     \<and> written_log s' = written_log s"
  by (auto simp: u_close_channels_def split: option.splits sum.splits)

lemma u_convert_image_keeps:
  "u_convert_image E s f = Inr s' \<Longrightarrow>
     image_format s' = image_format s \<and> auto_clamp s' = auto_clamp s
     \<and> written_log s' = written_log s"
  by (auto simp: u_convert_image_def split: if_splits sum.splits dest: u_close_channels_keeps)

lemma u_get_channel_keeps:
  "u_get_channel s c = Inr (v, s') \<Longrightarrow>
     image_format s' = image_format s \<and> auto_clamp s' = auto_clamp s
     \<and> written_log s' = written_log s"
  by (auto simp: u_get_channel_def Let_def split: option.splits sum.splits if_splits)

lemma u_pre_keeps:
  "u_pre E s ch = Inr (v, c, s') \<Longrightarrow>
     image_format s' = image_format s \<and> auto_clamp s' = auto_clamp s
     \<and> written_log s' = written_log s"
  by (auto simp: u_pre_def split: option.splits sum.splits if_splits prod.splits
      dest!: u_get_channel_keeps u_convert_image_keeps)

lemma u_post_keeps:
  "u_post s c v = Inr s' \<Longrightarrow>
     image_format s' = image_format s \<and> auto_clamp s' = auto_clamp s
     \<and> written_log s' = written_log s @ [if auto_clamp s then u_clamp v else v]"
  by (auto simp: u_post_def u_set_channel_def split: option.splits sum.splits if_splits)

lemma invert_format: "invert E s chs = Inr s' \<Longrightarrow> image_format s' = image_format s"
  by (induction chs arbitrary: s)
     (auto split: sum.splits prod.splits dest!: u_pre_keeps u_post_keeps)

lemma offset_format: "offset E s chs = Inr s' \<Longrightarrow> image_format s' = image_format s"
  by (induction chs arbitrary: s)
     (auto split: sum.splits prod.splits dest!: u_pre_keeps u_post_keeps)

lemma scale_format: "scale E s chs = Inr s' \<Longrightarrow> image_format s' = image_format s"
  by (induction chs arbitrary: s)
     (auto split: sum.splits prod.splits dest!: u_pre_keeps u_post_keeps)

lemma threshold_format: "threshold E s chs = Inr s' \<Longrightarrow> image_format s' = image_format s"
  by (induction chs arbitrary: s)
     (auto split: sum.splits prod.splits option.splits dest!: u_pre_keeps u_post_keeps)

lemma clamp_format: "clamp E s chs = Inr s' \<Longrightarrow> image_format s' = image_format s"
  by (induction chs arbitrary: s)
     (auto split: sum.splits prod.splits option.splits dest!: u_pre_keeps u_post_keeps)

lemma perform_format: "perform E s c = Inr s' \<Longrightarrow> image_format s' = image_format s"
  by (cases c)
     (auto dest: invert_format offset_format scale_format threshold_format clamp_format)

lemma perform_all_format: "perform_all E s cs = Inr s' \<Longrightarrow> image_format s' = image_format s"
  by (induction cs arbitrary: s) (auto split: sum.splits dest: perform_format)

lemma init_modifier_format: "init_modifier img ac dbg = Inr s \<Longrightarrow> image_format s = format img"
  by (auto simp: init_modifier_def split: if_splits)

section \<open>Switching the image of a session\<close>

text \<open>
  C7.  A session is built from an image whose container format (such as PNG or JPEG)
  is not the name of one of the five modes.  After any sequence of operations on it,
  \<open>set_handle\<close> with any image, and \<open>load_image\<close> of any file that opens, raise
  the ValueError "Unsupported image format" followed by that container format,
  whatever the mode of the new image: the test reads the remembered container format.
\<close>

theorem switching_image_always_fails:
  assumes "init_modifier img ac dbg = Inr s0"
    and "format img = Some f"
    and "f \<notin> set (map fst SUPPORTED_PIL_MODES)"
    and "perform_all E s0 calls = Inr s"
    and "fs filename = Some img'"
  shows "set_handle s img' = Inl (ValueError (''Unsupported image format '' @ f))
         \<and> load_image fs s filename = Inl (ValueError (''Unsupported image format '' @ f))"
proof -
  have "image_format s = Some f"
    using assms(1,2,4) by (simp add: perform_all_format init_modifier_format)
  then show ?thesis
    using assms(3,5)
    by (simp add: set_handle_def load_image_def image_open_def Let_def str_of_format_def)
qed

theorem switching_image_always_fails_witness:
  "init_modifier red_pixel False False = Inr red_session
   \<and> format red_pixel = Some ''PNG''
   \<and> ''PNG'' \<notin> set (map fst SUPPORTED_PIL_MODES)
   \<and> perform_all reference_externals red_session [Invert [''r'']] = Inr red_inverted_session
   \<and> [''b.png'' \<mapsto> two_pixels] ''b.png'' = Some two_pixels
   \<and> set_handle red_inverted_session two_pixels = Inl (ValueError ''Unsupported image format PNG'')
   \<and> load_image [''b.png'' \<mapsto> two_pixels] red_inverted_session ''b.png''
       = Inl (ValueError ''Unsupported image format PNG'')"
proof -
  have a: "init_modifier red_pixel False False = Inr red_session"
    by (rule init_red_pixel)
  have b: "format red_pixel = Some ''PNG''"
    by (simp add: red_pixel_def)
  have c: "''PNG'' \<notin> set (map fst SUPPORTED_PIL_MODES)"
    by (simp add: SUPPORTED_PIL_MODES_def)
  have d: "perform_all reference_externals red_session [Invert [''r'']] = Inr red_inverted_session"
    by (simp only: perform_all.simps perform.simps invert_red_pixel sum.case)
  have e: "[''b.png'' \<mapsto> two_pixels] ''b.png'' = Some two_pixels"
    by simp
  show ?thesis
    using switching_image_always_fails
      [where fs = "[''b.png'' \<mapsto> two_pixels]" and filename = "''b.png''", OF a b c d e]
      a b c d e
    by simp
qed

section \<open>Saving without an operation\<close>

text \<open>
  With no operation \<open>save_image\<close> neither converts nor merges: it calls
  \<open>Image.save\<close> on the image it was built from, with the container format the
  constructor remembered.  The save can only succeed when the image has a container
  format, the codec of that format stores the mode and the file object is open for
  writing; the codec is then given the image itself.
\<close>

lemma save_succeeds_only_with_codec:
  assumes "init_modifier img ac dbg = Inr s"
    and "save_image E s fp ''default'' = Inr r"
  shows "\<exists>f. format img = Some f \<and> can_write E f (mode img) \<and> writable fp
             \<and> r = (s, fp\<lparr>written := Some (f, img)\<rparr>)"
  using assms
  by (auto simp add: init_modifier_def save_image_def u_close_channels_def pil_save_def
      split: if_splits option.splits)

text \<open>
  C9.  The claim: for every image in one of the five modes, a new session with no
  operation performed saves, with the output format \<open>default\<close>, an image with the
  pixel data of the original.  HSV is one of the five modes.  The session of an HSV
  image is built, and its save into a buffer raises: ValueError for the image as
  \<open>Image.convert\<close> gives it, with no container format, and OSError when the format
  is PNG, whose codec does not store the mode.  Nothing is written.
\<close>

theorem save_without_operation_counterexample:
  "init_modifier hsv_pixel True False = Inr hsv_session
   \<and> save_image reference_externals hsv_session bytes_io ''default''
       = Inl (ValueError ''unknown file extension'')
   \<and> init_modifier hsv_png_pixel True False = Inr hsv_png_session
   \<and> save_image reference_externals hsv_png_session bytes_io ''default''
       = Inl (OSError ''cannot write mode'')"
  by (simp add: init_modifier_def save_image_def u_close_channels_def pil_save_def
      hsv_pixel_def hsv_session_def hsv_png_pixel_def hsv_png_session_def
      SUPPORTED_PIL_MODES_def reference_externals_def bytes_io_def)

text \<open>
  C9, amended.  An image in one of the five modes that has a container format whose
  codec stores its mode is given to a new session, no operation is performed, and
  \<open>save_image\<close> is called with the output format \<open>default\<close> on a file object open
  for writing.  The session is built, the save succeeds and leaves the session as it
  was, and what the codec of the image's own container format is given to write is the
  image itself: the same mode and the same planes, with no conversion, no merge and no
  arithmetic on the way.  The bytes the codec makes of that image are the library's:
  the statement ends where the image is handed over.
\<close>

theorem save_without_operation_writes_original:
  assumes "mode img \<in> set (map fst SUPPORTED_PIL_MODES)"
    and "format img = Some f"
    and "can_write E f (mode img)"
    and "writable fp"
  shows "\<exists>s. init_modifier img ac dbg = Inr s
           \<and> save_image E s fp ''default'' = Inr (s, fp\<lparr>written := Some (f, img)\<rparr>)"
  using assms
  by (simp add: init_modifier_def save_image_def u_close_channels_def pil_save_def)

theorem save_without_operation_writes_original_witness:
  "mode red_pixel \<in> set (map fst SUPPORTED_PIL_MODES)
   \<and> format red_pixel = Some ''PNG''
   \<and> can_write reference_externals ''PNG'' (mode red_pixel)
   \<and> writable bytes_io
   \<and> init_modifier red_pixel False False = Inr red_session
   \<and> save_image reference_externals red_session bytes_io ''default''
       = Inr (red_session, bytes_io\<lparr>written := Some (''PNG'', red_pixel)\<rparr>)"
proof -
  have a: "mode red_pixel \<in> set (map fst SUPPORTED_PIL_MODES)"
    by (simp add: red_pixel_def SUPPORTED_PIL_MODES_def)
  have b: "format red_pixel = Some ''PNG''"
    by (simp add: red_pixel_def)
  have c: "can_write reference_externals ''PNG'' (mode red_pixel)"
    by (simp add: reference_externals_def red_pixel_def)
  have d: "writable bytes_io"
    by (simp add: bytes_io_def)
  show ?thesis
    using save_without_operation_writes_original [OF a b c d, of False False]
      a b c d init_red_pixel
    by auto
qed

section \<open>The table of inverted bytes\<close>

lemma table_props:
  "list_all (\<lambda>b. invert_table ! b < 256 \<and> near (invert_table ! (invert_table ! b)) b) [0..<256]"
  unfolding invert_table_def near_def by (simp add: upt_rec)

lemma invert_byte_False_table: "map (invert_byte False) [0..<256] = invert_table"
  unfolding invert_table_def
  by (simp add: upt_rec invert_byte_def clamp01_def float_eval)

lemma invert_byte_True_table: "map (invert_byte True) [0..<256] = invert_table"
  unfolding invert_table_def
  by (simp add: upt_rec invert_byte_def clamp01_def float_eval)

section \<open>The auto-clamp invariant\<close>

lemma u_clamp_unit: "list_all (\<lambda>x. 0 \<le> x \<and> x \<le> 1) (u_clamp v)"
  by (simp add: u_clamp_def clamp01_def fmin_def fmax_def list_all_iff)

lemma u_post_clamped:
  assumes "auto_clamp s" and "list_all (list_all (\<lambda>x. 0 \<le> x \<and> x \<le> 1)) (written_log s)"
    and "u_post s c v = Inr s'"
  shows "auto_clamp s' \<and> list_all (list_all (\<lambda>x. 0 \<le> x \<and> x \<le> 1)) (written_log s')"
  using assms u_post_keeps [OF assms(3)] by (simp add: u_clamp_unit)

lemma u_pre_clamped:
  assumes "auto_clamp s" and "list_all (list_all (\<lambda>x. 0 \<le> x \<and> x \<le> 1)) (written_log s)"
    and "u_pre E s ch = Inr (v, c, s')"
  shows "auto_clamp s' \<and> list_all (list_all (\<lambda>x. 0 \<le> x \<and> x \<le> 1)) (written_log s')"
  using assms u_pre_keeps [OF assms(3)] by simp

lemma invert_clamped:
  "auto_clamp s \<Longrightarrow> list_all (list_all (\<lambda>x. 0 \<le> x \<and> x \<le> 1)) (written_log s) \<Longrightarrow>
   invert E s chs = Inr s' \<Longrightarrow>
   auto_clamp s' \<and> list_all (list_all (\<lambda>x. 0 \<le> x \<and> x \<le> 1)) (written_log s')"
proof (induction chs arbitrary: s)
  case Nil
  then show ?case by simp
next
  case (Cons ch chs)
  from Cons.prems(3) obtain v c s1 s2 where
    pre: "u_pre E s ch = Inr (v, c, s1)" and
    post: "u_post s1 c (map (\<lambda>x. fsub 1 x) v) = Inr s2" and
    rest: "invert E s2 chs = Inr s'"
    by (auto split: sum.splits prod.splits)
  show ?case
    using Cons.IH [OF _ _ rest] u_post_clamped [OF _ _ post] u_pre_clamped [OF Cons.prems(1,2) pre]
    by blast
qed

lemma offset_clamped:
  "auto_clamp s \<Longrightarrow> list_all (list_all (\<lambda>x. 0 \<le> x \<and> x \<le> 1)) (written_log s) \<Longrightarrow>
   offset E s chs = Inr s' \<Longrightarrow>
   auto_clamp s' \<and> list_all (list_all (\<lambda>x. 0 \<le> x \<and> x \<le> 1)) (written_log s')"
proof (induction chs arbitrary: s)
  case Nil
  then show ?case by simp
next
  case (Cons p chs)
  obtain ch y where p: "p = (ch, y)" by (cases p)
  from Cons.prems(3) p obtain v c s1 s2 where
    pre: "u_pre E s ch = Inr (v, c, s1)" and
    post: "u_post s1 c (map (\<lambda>x. fadd x y) v) = Inr s2" and
    rest: "offset E s2 chs = Inr s'"
    by (auto split: sum.splits prod.splits)
  show ?case
    using Cons.IH [OF _ _ rest] u_post_clamped [OF _ _ post] u_pre_clamped [OF Cons.prems(1,2) pre]
    by blast
qed

lemma scale_clamped:
  "auto_clamp s \<Longrightarrow> list_all (list_all (\<lambda>x. 0 \<le> x \<and> x \<le> 1)) (written_log s) \<Longrightarrow>
   scale E s chs = Inr s' \<Longrightarrow>
   auto_clamp s' \<and> list_all (list_all (\<lambda>x. 0 \<le> x \<and> x \<le> 1)) (written_log s')"
proof (induction chs arbitrary: s)
  case Nil
  then show ?case by simp
next
  case (Cons p chs)
  obtain ch y where p: "p = (ch, y)" by (cases p)
  from Cons.prems(3) p obtain v c s1 s2 where
    pre: "u_pre E s ch = Inr (v, c, s1)" and
    post: "u_post s1 c (map (\<lambda>x. fmul x y) v) = Inr s2" and
    rest: "scale E s2 chs = Inr s'"
    by (auto split: sum.splits prod.splits)
  show ?case
    using Cons.IH [OF _ _ rest] u_post_clamped [OF _ _ post] u_pre_clamped [OF Cons.prems(1,2) pre]
    by blast
qed

lemma threshold_clamped:
  "auto_clamp s \<Longrightarrow> list_all (list_all (\<lambda>x. 0 \<le> x \<and> x \<le> 1)) (written_log s) \<Longrightarrow>
   threshold E s chs = Inr s' \<Longrightarrow>
   auto_clamp s' \<and> list_all (list_all (\<lambda>x. 0 \<le> x \<and> x \<le> 1)) (written_log s')"
proof (induction chs arbitrary: s)
  case Nil
  then show ?case by simp
next
  case (Cons p chs)
  obtain ch color where p: "p = (ch, color)" by (cases p)
  from Cons.prems(3) p obtain v c s1 s2 w where
    pre: "u_pre E s ch = Inr (v, c, s1)" and
    post: "u_post s1 c w = Inr s2" and
    rest: "threshold E s2 chs = Inr s'"
    by (auto split: sum.splits prod.splits option.splits)
  show ?case
    using Cons.IH [OF _ _ rest] u_post_clamped [OF _ _ post] u_pre_clamped [OF Cons.prems(1,2) pre]
    by blast
qed

lemma clamp_clamped:
  "auto_clamp s \<Longrightarrow> list_all (list_all (\<lambda>x. 0 \<le> x \<and> x \<le> 1)) (written_log s) \<Longrightarrow>
   clamp E s chs = Inr s' \<Longrightarrow>
   auto_clamp s' \<and> list_all (list_all (\<lambda>x. 0 \<le> x \<and> x \<le> 1)) (written_log s')"
proof (induction chs arbitrary: s)
  case Nil
  then show ?case by simp
next
  case (Cons p chs)
  obtain ch md color where p: "p = (ch, md, color)" by (cases p)
  from Cons.prems(3) p obtain v c s1 s2 w where
    pre: "u_pre E s ch = Inr (v, c, s1)" and
    post: "u_post s1 c w = Inr s2" and
    rest: "clamp E s2 chs = Inr s'"
    by (auto split: sum.splits prod.splits option.splits)
  show ?case
    using Cons.IH [OF _ _ rest] u_post_clamped [OF _ _ post] u_pre_clamped [OF Cons.prems(1,2) pre]
    by blast
qed

lemma perform_clamped:
  "auto_clamp s \<Longrightarrow> list_all (list_all (\<lambda>x. 0 \<le> x \<and> x \<le> 1)) (written_log s) \<Longrightarrow>
   perform E s c = Inr s' \<Longrightarrow>
   auto_clamp s' \<and> list_all (list_all (\<lambda>x. 0 \<le> x \<and> x \<le> 1)) (written_log s')"
  by (cases c)
     (auto dest: invert_clamped offset_clamped scale_clamped threshold_clamped clamp_clamped)

lemma perform_all_clamped:
  "auto_clamp s \<Longrightarrow> list_all (list_all (\<lambda>x. 0 \<le> x \<and> x \<le> 1)) (written_log s) \<Longrightarrow>
   perform_all E s cs = Inr s' \<Longrightarrow>
   auto_clamp s' \<and> list_all (list_all (\<lambda>x. 0 \<le> x \<and> x \<le> 1)) (written_log s')"
proof (induction cs arbitrary: s)
  case Nil
  then show ?case by simp
next
  case (Cons c cs)
  from Cons.prems(3) obtain s1 where
    one: "perform E s c = Inr s1" and rest: "perform_all E s1 cs = Inr s'"
    by (auto split: sum.splits)
  show ?case
    using Cons.IH [OF _ _ rest] perform_clamped [OF Cons.prems(1,2) one] by blast
qed

text \<open>
  C5.  A session is built with the auto-clamp flag set, on any image of a supported
  mode, and any sequence of the five operations runs on it.  Every plane that an
  operation hands over to be written has all its values between 0 and 1; this is the
  normalised plane, before \<open>u_set_channel\<close> multiplies by 255 and truncates to a byte.
  The flag is still set afterwards.
\<close>

theorem auto_clamp_keeps_written_planes_in_unit_interval:
  assumes "init_modifier img True dbg = Inr s0"
    and "perform_all E s0 calls = Inr s"
  shows "auto_clamp s \<and> list_all (list_all (\<lambda>x. 0 \<le> x \<and> x \<le> 1)) (written_log s)"
proof -
  have "auto_clamp s0" and "written_log s0 = []"
    using assms(1) by (auto simp: init_modifier_def split: if_splits)
  then show ?thesis
    using perform_all_clamped [OF _ _ assms(2)] by simp
qed

lemma one_plus_half: "fadd 1 (1 / 2) = 3 / 2"
  by (simp add: float_eval)

lemma clamp01_three_halves: "clamp01 (3 / 2) = 1"
  by (simp add: clamp01_def fmin_def fmax_def)

lemma one_to_byte: "astype_uint8 (fmul 1 255) = 255"
  by (simp add: float_eval)

lemma init_red_pixel_clamping: "init_modifier red_pixel True False = Inr red_session_clamping"
  by (simp add: init_modifier_def red_pixel_def red_session_def red_session_clamping_def
      SUPPORTED_PIL_MODES_def)

lemma offset_red_pixel:
  "offset E red_session_clamping [(''r'', 1 / 2)] = Inr red_offset_session"
  by (simp add: u_pre_def u_post_def u_get_channel_def u_set_channel_def str_contains_def
      str_index_def startswith_def upper_def upper_char_def red_session_def red_pixel_def
      red_session_clamping_def red_offset_session_def u_clamp_def
      byte_255_normalised one_plus_half clamp01_three_halves one_to_byte)

theorem auto_clamp_keeps_written_planes_in_unit_interval_witness:
  "init_modifier red_pixel True False = Inr red_session_clamping
   \<and> perform_all reference_externals red_session_clamping [Offset [(''r'', 1 / 2)]]
       = Inr red_offset_session
   \<and> auto_clamp red_offset_session
   \<and> list_all (list_all (\<lambda>x. 0 \<le> x \<and> x \<le> 1)) (written_log red_offset_session)
   \<and> written_log red_offset_session = [[1]]"
proof -
  have a: "init_modifier red_pixel True False = Inr red_session_clamping"
    by (rule init_red_pixel_clamping)
  have b: "perform_all reference_externals red_session_clamping [Offset [(''r'', 1 / 2)]]
             = Inr red_offset_session"
    by (simp only: perform_all.simps perform.simps offset_red_pixel sum.case)
  show ?thesis
    using auto_clamp_keeps_written_planes_in_unit_interval [OF a b] a b
    by (simp add: red_offset_session_def)
qed

section \<open>Inverting twice\<close>

lemma upper_char_idem: "upper_char (upper_char c) = upper_char c"
  by (simp add: upper_char_def)

lemma upper_idem: "upper (upper s) = upper s"
  by (simp add: upper_def upper_char_idem)

lemma invert_byte_table:
  assumes "b < 256"
  shows "invert_byte ac b = invert_table ! b"
proof -
  have "map (invert_byte ac) [0..<256] = invert_table"
    using invert_byte_False_table invert_byte_True_table
    by (cases ac) simp_all
  then have "invert_table ! b = map (invert_byte ac) [0..<256] ! b"
    by simp
  also have "\<dots> = invert_byte ac b"
    using assms by (simp del: upt_Suc)
  finally show ?thesis by simp
qed

lemma invert_byte_twice:
  assumes "b < 256"
  shows "invert_byte ac b < 256 \<and> near (invert_byte ac (invert_byte ac b)) b"
proof -
  have "b \<in> set [0..<256]"
    using assms by simp
  then have "invert_table ! b < 256 \<and> near (invert_table ! (invert_table ! b)) b"
    using table_props by (simp add: list_all_iff)
  then show ?thesis
    using assms by (simp add: invert_byte_table)
qed

lemma invert_byte_fun:
  "invert_byte ac =
     (\<lambda>b. astype_uint8 (fmul ((if ac then clamp01 else id) (fsub 1 (fdiv (of_nat b) 255))) 255))"
  by (rule ext) (simp add: invert_byte_def)

lemma invert_single:
  assumes "length ch = 1"
    and "str_find (current_format s) (upper ch) = Some ix"
    and "ix < length (session_planes s)"
  shows "invert E s [ch] =
           Inr (s\<lparr>loaded_channels :=
                     Some ((session_planes s)
                       [ix := map (invert_byte (auto_clamp s)) (session_planes s ! ix)]),
                   written_log := written_log s @
                     [(if auto_clamp s then u_clamp else id)
                        (map (\<lambda>x. fsub 1 x)
                           (map (\<lambda>b. fdiv (of_nat b) 255) (session_planes s ! ix)))]\<rparr>)"
  using assms
  by (cases "loaded_channels s")
     (simp_all add: u_pre_def u_post_def u_get_channel_def u_set_channel_def
        str_contains_def str_index_def upper_idem session_planes_def
        invert_byte_fun u_clamp_def comp_def)

lemma str_find_less: "str_find s n = Some i \<Longrightarrow> n \<noteq> [] \<Longrightarrow> i < length s"
  by (induction s n arbitrary: i rule: str_find.induct) (auto split: if_splits)

lemma near_invert_twice:
  "list_all (\<lambda>b. b < 256) p \<Longrightarrow>
   list_all2 near (map (invert_byte ac) (map (invert_byte ac) p)) p"
  by (induction p) (simp_all add: invert_byte_twice)

text \<open>
  C8.  A session is built on an image of a supported mode that has one plane for each
  letter of its mode, and \<open>ch\<close> is the letter (in either case) of one of its
  channels, whose plane holds bytes.  Inverting that channel twice succeeds, leaves
  every other plane as it was, and brings each byte of the plane back to within one
  step of 1/255 of its value: \<open>near\<close> allows a difference of one, which is what the
  rounding of the division by 255 and the truncation can cost.
\<close>

theorem invert_twice_restores_plane:
  assumes "init_modifier img ac dbg = Inr s0"
    and "length (planes img) = length (mode img)"
    and "length ch = 1"
    and "str_find (mode img) (upper ch) = Some ix"
    and "list_all (\<lambda>b. b < 256) (planes img ! ix)"
  shows "\<exists>s1 s2. invert E s0 [ch] = Inr s1 \<and> invert E s1 [ch] = Inr s2
           \<and> list_all2 near (session_planes s2 ! ix) (planes img ! ix)
           \<and> session_planes s2 = (planes img)[ix := session_planes s2 ! ix]"
proof -
  have s0: "current_format s0 = mode img" "session_planes s0 = planes img"
    "auto_clamp s0 = ac"
    using assms(1) by (auto simp: init_modifier_def session_planes_def split: if_splits)
  have "upper ch \<noteq> []"
    using assms(3) by (auto simp: upper_def)
  then have ix: "ix < length (planes img)"
    using assms(2,4) str_find_less by fastforce
  define p where "p = planes img ! ix"
  define s1 where "s1 = s0\<lparr>loaded_channels := Some ((planes img)[ix := map (invert_byte ac) p]),
      written_log := written_log s0 @
        [(if ac then u_clamp else id)
           (map (\<lambda>x. fsub 1 x) (map (\<lambda>b. fdiv (of_nat b) 255) p))]\<rparr>"
  have one: "invert E s0 [ch] = Inr s1"
    using invert_single [of ch s0 ix E] assms(3,4) ix s0 by (simp add: s1_def p_def)
  have s1: "current_format s1 = mode img"
    "session_planes s1 = (planes img)[ix := map (invert_byte ac) p]" "auto_clamp s1 = ac"
    using s0 by (simp_all add: s1_def session_planes_def)
  define s2 where "s2 = s1\<lparr>loaded_channels :=
        Some ((planes img)[ix := map (invert_byte ac) (map (invert_byte ac) p)]),
      written_log := written_log s1 @
        [(if ac then u_clamp else id)
           (map (\<lambda>x. fsub 1 x)
              (map (\<lambda>b. fdiv (of_nat b) 255) (map (invert_byte ac) p)))]\<rparr>"
  have two: "invert E s1 [ch] = Inr s2"
    using invert_single [of ch s1 ix E] assms(3,4) ix s1 by (simp add: s2_def)
  have s2: "session_planes s2 = (planes img)[ix := map (invert_byte ac) (map (invert_byte ac) p)]"
    by (simp add: s2_def session_planes_def)
  have "list_all2 near (session_planes s2 ! ix) (planes img ! ix)"
    using near_invert_twice [OF assms(5)] ix by (simp add: s2 p_def)
  moreover have "session_planes s2 = (planes img)[ix := session_planes s2 ! ix]"
    using ix by (simp add: s2)
  ultimately show ?thesis
    using one two by blast
qed

theorem invert_twice_restores_plane_witness:
  "init_modifier red_pixel False False = Inr red_session
   \<and> length (planes red_pixel) = length (mode red_pixel)
   \<and> length ''r'' = 1
   \<and> str_find (mode red_pixel) (upper ''r'') = Some 0
   \<and> list_all (\<lambda>b. b < 256) (planes red_pixel ! 0)
   \<and> (\<exists>s1 s2. invert reference_externals red_session [''r''] = Inr s1
          \<and> invert reference_externals s1 [''r''] = Inr s2
          \<and> list_all2 near (session_planes s2 ! 0) [255])"
proof -
  have a: "init_modifier red_pixel False False = Inr red_session"
    by (rule init_red_pixel)
  have b: "length (planes red_pixel) = length (mode red_pixel)"
    by (simp add: red_pixel_def)
  have c: "length ''r'' = 1"
    by simp
  have d: "str_find (mode red_pixel) (upper ''r'') = Some 0"
    by (simp add: red_pixel_def upper_def upper_char_def startswith_def)
  have e: "list_all (\<lambda>b. b < 256) (planes red_pixel ! 0)"
    by (simp add: red_pixel_def)
  have f: "planes red_pixel ! 0 = [255]"
    by (simp add: red_pixel_def)
  show ?thesis
    using invert_twice_restores_plane [OF a b c d e, of reference_externals] a b c d e f
    by auto
qed

text \<open>
  The involution is not exact: the byte 1 becomes 254, and 254 becomes 0.
\<close>

lemma invert_twice_not_exact:
  "invert_byte False 1 = 254 \<and> invert_byte False 254 = 0"
  by (simp add: invert_byte_table invert_table_def)

section \<open>The bounds of clamp\<close>

lemma fdiv_1_255: "fdiv 1 255 = one_255"
  by (simp add: one_255_def float_eval)

lemma fadd_0_0: "fadd 0 0 = 0"
  by (simp add: float_eval)

lemma fadd_0_one_255: "fadd 0 one_255 = one_255"
  by (simp add: one_255_def float_eval)

lemma fdiv_one_255_2: "fdiv one_255 2 = green_mean"
  by (simp add: green_mean_def one_255_def float_eval)

lemma green_mean_to_byte: "astype_uint8 (fmul green_mean 255) = 0"
  by (simp add: green_mean_def one_255_def float_eval)

lemma one_255_to_byte: "astype_uint8 (fmul one_255 255) = 1"
  by (simp add: one_255_def float_eval)

lemma fmax_green_mean: "fmax 0 green_mean = green_mean \<and> fmax one_255 green_mean = one_255"
  by (simp add: fmax_def green_mean_def one_255_def)

lemma green_mean_pos: "0 < green_mean"
  by (simp add: green_mean_def one_255_def)

lemma upper_g: "upper ''g'' = ''G'' \<and> upper ''G'' = ''G''"
  by (simp add: upper_def upper_char_def)

lemma u_pre_two_session:
  "u_pre E two_session ''g'' = Inr ([0, one_255], ''G'', two_loaded)"
  by (simp add: u_pre_def u_get_channel_def str_contains_def str_index_def startswith_def
      upper_g two_session_def two_loaded_def two_pixels_def byte_0_normalised fdiv_1_255)

lemma u_pre_two_clamped:
  "u_pre E two_clamped ''g'' = Inr ([0, one_255], ''G'', two_clamped)"
  by (simp add: u_pre_def u_get_channel_def str_contains_def str_index_def startswith_def
      upper_g two_session_def two_loaded_def two_clamped_def byte_0_normalised fdiv_1_255)

lemma mean_of_green: "np_mean reference_externals [0, one_255] = Inr green_mean"
  by (simp add: reference_externals_def np_mean_ref_def fadd_0_0 fadd_0_one_255 fdiv_one_255_2)

lemma keyword_mean:
  "keyword_lookup reference_externals (Str ''mean'') = Some (np_mean reference_externals)"
  by (simp add: keyword_lookup_def SUPPORTED_KEYWORD_PARAMS_def)

lemma u_post_two_loaded:
  "u_post two_loaded ''G'' [green_mean, one_255] = Inr two_clamped"
  by (simp add: u_post_def u_set_channel_def str_index_def startswith_def upper_g
      two_session_def two_loaded_def two_clamped_def green_mean_to_byte one_255_to_byte)

lemma clamp_max_mean_two_session:
  "clamp reference_externals two_session [(''g'', ''max'', Str ''mean'')] = Inr two_clamped"
  by (simp add: u_pre_two_session keyword_mean mean_of_green SUPPORTED_CLAMP_MODES_def
      fmax_green_mean u_post_two_loaded)

text \<open>
  C4.  The claim: after \<open>clamp\<close> with mode \<open>max\<close> every value of the channel's plane
  is at least the resolved scalar.  On the two-pixel image the keyword \<open>mean\<close> resolves
  to \<open>green_mean\<close>, which is positive; the clamp succeeds; the plane read back
  afterwards is still 0 and \<open>one_255\<close>, because \<open>green_mean * 255\<close> is truncated to the
  byte 0: its first value is below the scalar.
\<close>

theorem clamp_max_bound_counterexample:
  "u_pre reference_externals two_session ''g'' = Inr ([0, one_255], ''G'', two_loaded)
   \<and> keyword_lookup reference_externals (Str ''mean'') = Some (np_mean reference_externals)
   \<and> np_mean reference_externals [0, one_255] = Inr green_mean
   \<and> clamp reference_externals two_session [(''g'', ''max'', Str ''mean'')] = Inr two_clamped
   \<and> u_pre reference_externals two_clamped ''g'' = Inr ([0, one_255], ''G'', two_clamped)
   \<and> \<not> list_all (\<lambda>x. green_mean \<le> x) [0, one_255]"
  using green_mean_pos
  by (simp add: u_pre_two_session keyword_mean mean_of_green clamp_max_mean_two_session
      u_pre_two_clamped del: clamp.simps)

text \<open>
  C4, amended.  Let \<open>v\<close> be the normalised plane \<open>u_pre\<close> returns for the channel and
  \<open>sc\<close> the scalar the keyword resolves to on \<open>v\<close>.  With mode \<open>min\<close> the plane that
  \<open>clamp\<close> hands to \<open>u_post\<close> is the elementwise minimum of \<open>v\<close> and \<open>sc\<close>, with
  mode \<open>max\<close> the elementwise maximum; so each value handed over is at most \<open>sc\<close> and
  not above the old value for \<open>min\<close>, at least \<open>sc\<close> and not below the old value
  for \<open>max\<close>.  These are the values before the optional auto-clamp and before the
  truncation to bytes.
\<close>

theorem clamp_hands_over_min_or_max:
  assumes "u_pre E s ch = Inr (v, c, s1)"
    and "keyword_lookup E color = Some f"
    and "f v = Inr sc"
  shows "clamp E s [(ch, ''min'', color)] = u_post s1 c (map (\<lambda>x. min x sc) v)
         \<and> clamp E s [(ch, ''max'', color)] = u_post s1 c (map (\<lambda>x. max x sc) v)
         \<and> list_all (\<lambda>y. y \<le> sc) (map (\<lambda>x. min x sc) v)
         \<and> list_all2 (\<lambda>y x. y \<le> x) (map (\<lambda>x. min x sc) v) v
         \<and> list_all (\<lambda>y. sc \<le> y) (map (\<lambda>x. max x sc) v)
         \<and> list_all2 (\<lambda>y x. x \<le> y) (map (\<lambda>x. max x sc) v) v"
proof -
  have "clamp E s [(ch, ''min'', color)] = u_post s1 c (map (\<lambda>x. min x sc) v)"
    using assms by (simp add: SUPPORTED_CLAMP_MODES_def fmin_def split: sum.splits)
  moreover have "clamp E s [(ch, ''max'', color)] = u_post s1 c (map (\<lambda>x. max x sc) v)"
    using assms by (simp add: SUPPORTED_CLAMP_MODES_def fmax_def split: sum.splits)
  moreover have "list_all (\<lambda>y. y \<le> sc) (map (\<lambda>x. min x sc) v)"
    by (simp add: list_all_iff)
  moreover have "list_all2 (\<lambda>y x. y \<le> x) (map (\<lambda>x. min x sc) v) v"
    by (simp add: list_all2_conv_all_nth)
  moreover have "list_all (\<lambda>y. sc \<le> y) (map (\<lambda>x. max x sc) v)"
    by (simp add: list_all_iff)
  moreover have "list_all2 (\<lambda>y x. x \<le> y) (map (\<lambda>x. max x sc) v) v"
    by (simp add: list_all2_conv_all_nth)
  ultimately show ?thesis by blast
qed

theorem clamp_hands_over_min_or_max_witness:
  "u_pre reference_externals two_session ''g'' = Inr ([0, one_255], ''G'', two_loaded)
   \<and> keyword_lookup reference_externals (Str ''mean'') = Some (np_mean reference_externals)
   \<and> np_mean reference_externals [0, one_255] = Inr green_mean
   \<and> clamp reference_externals two_session [(''g'', ''max'', Str ''mean'')]
       = u_post two_loaded ''G'' (map (\<lambda>x. max x green_mean) [0, one_255])
   \<and> list_all (\<lambda>y. green_mean \<le> y) (map (\<lambda>x. max x green_mean) [0, one_255])"
proof -
  have a: "u_pre reference_externals two_session ''g'' = Inr ([0, one_255], ''G'', two_loaded)"
    by (rule u_pre_two_session)
  have b: "keyword_lookup reference_externals (Str ''mean'') = Some (np_mean reference_externals)"
    by (rule keyword_mean)
  have c: "np_mean reference_externals [0, one_255] = Inr green_mean"
    by (rule mean_of_green)
  show ?thesis
    using clamp_hands_over_min_or_max [OF a b c] a b c by blast
qed

section \<open>The command-line front end never writes\<close>

lemma pil_save_read_only: "\<not> writable fp \<Longrightarrow> pil_save E img fp fmt \<noteq> Inr x"
  by (simp add: pil_save_def split: option.splits)

lemma save_image_read_only:
  assumes "\<not> writable fp"
  shows "save_image E h fp d \<noteq> Inr r"
  using pil_save_read_only [OF assms]
  by (simp add: save_image_def split: sum.splits if_splits)

lemma save_to_fails: "\<exists>e. save_to E fs image' = (Inl e, fs)"
proof (cases "open_rb fs (output_name image')")
  case (Inl e)
  then show ?thesis by (simp add: save_to_def)
next
  case (Inr f)
  then have f: "\<not> writable f"
    by (auto simp: open_rb_def split: option.splits)
  show ?thesis
  proof (cases "handle image'")
    case None
    then show ?thesis using Inr by (simp add: save_to_def)
  next
    case (Some h)
    obtain e where "save_image E h f ''default'' = Inl e"
      using save_image_read_only [OF f, of E h "''default''"]
      by (cases "save_image E h f ''default''") auto
    then show ?thesis using Inr Some by (simp add: save_to_def)
  qed
qed

lemma run_loop_keeps_files:
  "run_loop E py_float debug' clamp' n ix fs image' commands = (r, fs') \<Longrightarrow> fs' = fs"
proof (induction commands arbitrary: ix image')
  case Nil
  then show ?case by simp
next
  case (Cons c commands)
  obtain name vals where c: "c = (name, vals)" by (cases c)
  show ?case
  proof (cases "process_items E py_float fs debug' clamp' name image' vals")
    case (Inl e)
    then show ?thesis using Cons.prems c by simp
  next
    case (Inr image2)
    obtain e where e: "save_to E fs image2 = (Inl e, fs)"
      using save_to_fails by blast
    show ?thesis
    proof (cases "output_name image2 \<noteq> None \<and> ix \<noteq> n - 1")
      case True
      then have "run_loop E py_float debug' clamp' n ix fs image' (c # commands) = (Inl e, fs)"
        using c Inr e by simp
      then show ?thesis using Cons.prems by simp
    next
      case False
      then have "run_loop E py_float debug' clamp' n ix fs image' (c # commands)
          = run_loop E py_float debug' clamp' n (ix + 1) fs image2 commands"
        using c Inr by (cases "output_name image2"; cases "ix = n - 1"; simp)
      then show ?thesis using Cons.prems Cons.IH by simp
    qed
  qed
qed

text \<open>
  C6.  The claim: the front end writes an intermediate copy of the image at every
  command before the last that has an output path, and the final image after the last
  command.  In the code every save opens the output path with mode \<open>'rb'\<close>, so the
  file object cannot be written: for every environment, file system, chain of commands
  and flags, \<open>run_commands\<close> ends with an exception and leaves the file system as it
  found it.
\<close>

theorem run_commands_never_writes:
  "\<exists>e. run_commands E py_float fs commands debug' clamp' = (Some e, fs)"
proof -
  obtain r fs' where loop: "run_loop E py_float debug' clamp' (int (length commands)) 0 fs
      \<lparr>input_name = None, output_name = None, handle = None\<rparr> commands = (r, fs')"
    by (cases "run_loop E py_float debug' clamp' (int (length commands)) 0 fs
      \<lparr>input_name = None, output_name = None, handle = None\<rparr> commands")
  have fs': "fs' = fs"
    using run_loop_keeps_files [OF loop] .
  show ?thesis
  proof (cases r)
    case (Inl e)
    then show ?thesis using loop fs' by (simp add: run_commands_def)
  next
    case (Inr image')
    define image2 where "image2 = (if output_name image' = None
      then image'\<lparr>output_name := input_name image'\<rparr> else image')"
    obtain e where "save_to E fs image2 = (Inl e, fs)"
      using save_to_fails by blast
    then show ?thesis
      using loop fs' Inr by (simp add: run_commands_def image2_def Let_def)
  qed
qed

lemma clamp01_zero: "clamp01 0 = 0"
  by (simp add: clamp01_def fmin_def fmax_def)

lemma set_clamp_red_session_clamping:
  "set_clamp red_session_clamping True = red_session_clamping"
  by (simp add: set_clamp_def red_session_clamping_def)

lemma invert_red_by_name:
  "invert E red_session_clamping [''red'']
     = Inr (red_session_clamping\<lparr>loaded_channels := Some [[0], [0], [0]], written_log := [[0]]\<rparr>)"
  by (simp add: u_pre_def u_post_def u_get_channel_def u_set_channel_def str_contains_def
      str_index_def startswith_def upper_def upper_char_def lower_def lower_char_def
      COLOR_CHANNEL_TO_SHORTHAND_def red_session_def red_pixel_def red_session_clamping_def
      u_clamp_def byte_255_normalised one_minus_one clamp01_zero zero_to_byte)

text \<open>
  On the chain \<open>invert in.png +r -o out.png offset +r 0.5\<close>, with both files present,
  the intermediate save after the first command raises \<open>io.UnsupportedOperation\<close>;
  \<open>out.png\<close> keeps its content and the second command never runs.
\<close>

lemma run_commands_chain_with_output:
  "run_commands reference_externals float_of_text two_files chain_with_output False True
     = (Some (UnsupportedOperation ''write''), two_files)"
proof -
  have items: "process_items reference_externals float_of_text two_files False True ''invert''
      \<lparr>input_name = None, output_name = None, handle = None\<rparr>
      [(''input'', StrV ''in.png''), (''output'', StrV ''out.png''),
       (''no_clamp'', BoolV False), (''debug'', BoolV False), (''red'', BoolV True)]
    = Inr \<lparr>input_name = Some ''in.png'', output_name = Some ''out.png'',
           handle = Some (red_session_clamping\<lparr>loaded_channels := Some [[0], [0], [0]],
                                               written_log := [[0]]\<rparr>)\<rparr>"
    by (simp add: process_item_def two_files_def from_image_def image_open_def
        init_red_pixel_clamping set_clamp_red_session_clamping with_handle_def
        invert_red_by_name del: invert.simps)
  have save: "save_to reference_externals two_files
      \<lparr>input_name = Some ''in.png'', output_name = Some ''out.png'',
        handle = Some (red_session_clamping\<lparr>loaded_channels := Some [[0], [0], [0]],
                                            written_log := [[0]]\<rparr>)\<rparr>
    = (Inl (UnsupportedOperation ''write''), two_files)"
    by (simp add: save_to_def open_rb_def two_files_def save_image_def u_close_channels_def
        pil_merge_def pil_save_def reference_externals_def red_session_clamping_def
        red_session_def)
  show ?thesis
    by (simp add: run_commands_def chain_with_output_def items save
        del: process_items.simps)
qed

section \<open>The phases of the legacy tool\<close>

lemma option_keys:
  "BEFORE OR OFFSET = 5" "BEFORE OR MIN' = 5" "BEFORE OR MAX' = 7"
  "AFTER OR OFFSET = 6" "AFTER OR MIN' = 7" "AFTER OR MAX' = 6"
  by (simp_all add: BEFORE_def AFTER_def INVERT_def OFFSET_def MIN'_def MAX'_def)

text \<open>Whatever its declared operation, an option is performed as an offset.\<close>

lemma every_option_is_an_offset:
  assumes "option_time \<in> {BEFORE, AFTER}" and "option_operation \<in> {OFFSET, MIN', MAX'}"
  shows "perform_operation (option_time OR option_operation) channel value
           = Inr [Transform offset_value channel [value]]"
  using assms
  by (auto simp: perform_operation_def BEFORE_def AFTER_def INVERT_def OFFSET_def MIN'_def MAX'_def)

text \<open>
  C3.  The claim: each option runs exactly once, in its declared phase (before or after
  the primary operation), with its declared operation.  On
  \<open>convert.py invert r:0 rboffset:0.5 , in.png:out.png\<close> the option, a before-offset
  on red, is never performed: only the inversion is.  On
  \<open>convert.py invert r:0 rbmax:0.5 , in.png:out.png\<close> the option, a before-max-clamp on
  red, is performed twice, before and after the inversion, and as an offset both times.
  The phases are tested against the channel constants \<open>B\<close> and \<open>A\<close>, not \<open>BEFORE\<close>
  and \<open>AFTER\<close>.
\<close>

theorem legacy_options_run_in_wrong_phase:
  "legacy_run float_of_text ''invert'' ''r:0'' [''rboffset:0.5''] [(''in.png'', [''out.png''])]
     = Inr [Load ''in.png'', Transform invert_value R [[0]], Save ''in.png'' ''out.png'']
   \<and> legacy_run float_of_text ''invert'' ''r:0'' [''rbmax:0.5''] [(''in.png'', [''out.png''])]
     = Inr [Load ''in.png'', Transform offset_value R [[1 / 2]], Transform invert_value R [[0]],
            Transform offset_value R [[1 / 2]], Save ''in.png'' ''out.png'']"
  by (simp add: legacy_run_def parse_mode_def parse_channels_def parse_option_def
      split_once_def string_to_mode_def string_to_channel_def string_to_option_def
      lower_def lower_char_def float_of_text_def transform_images_def transform_image_def
      perform_operations_def perform_operation_def
      BEFORE_def AFTER_def INVERT_def OFFSET_def MIN'_def MAX'_def
      H_def S_def V_def R_def G_def B_def A_def)

section \<open>The service and local files\<close>

lemma split_on_no_sep: "sep \<notin> set s \<Longrightarrow> split_on sep s = [s]"
  by (induction s) auto

lemma split_on_one_sep:
  "sep \<notin> set a \<Longrightarrow> sep \<notin> set b \<Longrightarrow> split_on sep (a @ sep # b) = [a, b]"
  by (induction a) (auto simp: split_on_no_sep)

text \<open>
  C10.  The claim: every request whose input data spec begins with \<open>file:\<close> is
  answered with status 403.  The spec \<open>file:/etc/passwd\<close>, with no comma, is answered
  with status 400: \<open>parse_file\<close> looks for the comma before it looks at the prefix.
  Nothing is fetched, decoded or opened.
\<close>

theorem file_spec_without_comma_counterexample:
  "api_operation reference_externals reference_service local_file_no_comma_request
     = (Inl (HTTPException 400 ''Invalid data format; Must be prepended by type''), [])"
  by (simp add: api_operation_def local_file_no_comma_request_def parse_file_def
      render_input_def SUPPORTED_OPERATIONS_def SUPPORTED_COLOR_CHANNEL_SHORTHANDS_def)

text \<open>
  C10, amended.  A request names a supported action and supported channels, and its
  first input data spec has exactly one comma, after a type that begins with
  \<open>file:\<close>.  The service answers with status 403, "Tried to access a local server
  resource", and performs no external call: nothing is fetched, decoded or opened, and
  the service has no operation that reads a file.
\<close>

theorem file_spec_is_forbidden:
  assumes "op_input data = Some ((input_name', content_type @ '','' @ content_string) # rest)"
    and "action data \<in> set SUPPORTED_OPERATIONS"
    and "list_all (\<lambda>c. c \<in> set SUPPORTED_COLOR_CHANNEL_SHORTHANDS) (op_channels data)"
    and "CHR '','' \<notin> set content_type"
    and "CHR '','' \<notin> set content_string"
    and "startswith content_type ''file:''"
  shows "api_operation E W data
           = (Inl (HTTPException 403 ''Tried to access a local server resource''), [])"
proof -
  have "find (\<lambda>c. c \<notin> set SUPPORTED_COLOR_CHANNEL_SHORTHANDS) (op_channels data) = None"
    using assms(3) by (simp add: find_None_iff list_all_iff)
  moreover have "parse_file W (content_type @ '','' @ content_string)
      = (Inl (HTTPException 403 ''Tried to access a local server resource''), [])"
    using assms(4,5,6) by (simp add: parse_file_def split_on_one_sep)
  ultimately show ?thesis
    using assms(1,2) by (simp add: api_operation_def render_input_def)
qed

theorem file_spec_is_forbidden_witness:
  "op_input local_file_request = Some [(''img'', ''file:/etc/passwd'' @ '','' @ ''x'')]
   \<and> action local_file_request \<in> set SUPPORTED_OPERATIONS
   \<and> list_all (\<lambda>c. c \<in> set SUPPORTED_COLOR_CHANNEL_SHORTHANDS) (op_channels local_file_request)
   \<and> CHR '','' \<notin> set ''file:/etc/passwd''
   \<and> CHR '','' \<notin> set ''x''
   \<and> startswith ''file:/etc/passwd'' ''file:''
   \<and> api_operation reference_externals reference_service local_file_request
       = (Inl (HTTPException 403 ''Tried to access a local server resource''), [])"
proof -
  have a: "op_input local_file_request = Some [(''img'', ''file:/etc/passwd'' @ '','' @ ''x'')]"
    by (simp add: local_file_request_def)
  have b: "action local_file_request \<in> set SUPPORTED_OPERATIONS"
    by (simp add: local_file_request_def SUPPORTED_OPERATIONS_def)
  have c: "list_all (\<lambda>c. c \<in> set SUPPORTED_COLOR_CHANNEL_SHORTHANDS)
      (op_channels local_file_request)"
    by (simp add: local_file_request_def SUPPORTED_COLOR_CHANNEL_SHORTHANDS_def)
  have d: "CHR '','' \<notin> set ''file:/etc/passwd''"
    by simp
  have e: "CHR '','' \<notin> set ''x''"
    by simp
  have f: "startswith ''file:/etc/passwd'' ''file:''"
    by (simp add: startswith_def)
  show ?thesis
    using file_spec_is_forbidden [OF a b c d e f, of reference_externals reference_service]
      a b c d e f
    by simp
qed

section \<open>The service end to end\<close>

lemma save_red_inverted:
  assumes "can_write E ''PNG'' ''RGB''"
  shows "save_image E red_inverted_session \<lparr>writable = True, written = None\<rparr> ''default''
           = Inr (red_inverted_session\<lparr>image_handle := black_pixel, loaded_channels := None\<rparr>,
                  \<lparr>writable = True, written = Some (''PNG'', black_pixel)\<rparr>)"
  using assms
  by (simp add: save_image_def u_close_channels_def pil_merge_def pil_save_def
      red_inverted_session_def red_session_def black_pixel_def)

lemma parse_data_uri:
  assumes "''image/png'' \<in> set (mimetypes W)" and "CHR '','' \<notin> set payload"
  shows "parse_file W (''data:image/png;base64'' @ '','' @ payload)
           = (b64decode W payload, [Base64Decode payload])"
proof -
  have "split_on CHR '','' (''data:image/png;base64'' @ CHR '','' # payload)
      = [''data:image/png;base64'', payload]"
    using assms(2) by (intro split_on_one_sep) simp_all
  then show ?thesis
    using assms(1)
    by (simp add: parse_file_def startswith_def endswith_def str_index_def)
qed

lemma open_red_pixel: "pil_open_bytes (Encoded ''PNG'' red_pixel) = Inr red_pixel"
  by (simp add: pil_open_bytes_def red_pixel_def)

lemma render_red_input:
  assumes "b64decode W payload = Inr (Encoded ''PNG'' red_pixel)"
    and "''image/png'' \<in> set (mimetypes W)"
    and "CHR '','' \<notin> set payload"
    and "can_write E ''PNG'' ''RGB''"
    and "action data = ''invert''"
    and "op_channels data = [''r'']"
    and "\<not> op_auto_clamp data"
  shows "render_input E W data (''data:image/png;base64'' @ '','' @ payload)
           = (Inr \<lparr>writable = True, written = Some (''PNG'', black_pixel)\<rparr>,
              [Base64Decode payload, ImageOpen (Encoded ''PNG'' red_pixel)])"
proof -
  have "do_operation E W red_session (action data) (op_channels data) (params data)
      = Inr red_inverted_session"
    using assms(5,6) by (simp add: do_operation_def invert_red_pixel del: invert.simps)
  then show ?thesis
    using assms(1,7) parse_data_uri [OF assms(2,3)] save_red_inverted [OF assms(4)]
    by (simp add: render_input_def open_red_pixel init_red_pixel)
qed

lemma reference_service_facts:
  "b64decode reference_service red_payload = Inr (Encoded ''PNG'' red_pixel)"
  "''image/png'' \<in> set (mimetypes reference_service)"
  "CHR '','' \<notin> set red_payload"
  "can_write reference_externals ''PNG'' ''RGB''"
  by (simp_all add: reference_service_def reference_externals_def red_payload_def)

lemma invert_red_request_facts:
  "action invert_red_request = ''invert''"
  "op_channels invert_red_request = [''r'']"
  "\<not> op_auto_clamp invert_red_request"
  "op_input invert_red_request = Some [(''img'', ''data:image/png;base64'' @ '','' @ red_payload)]"
  "op_output_format invert_red_request = None"
  by (simp_all add: invert_red_request_def)

text \<open>
  After the save the handler calls \<open>encode_output\<close> with two arguments, and
  \<open>encode_output\<close> takes one: every round of the loop ends with an exception, so the
  handler answers with a mapping only when the list of inputs is empty, and the
  mapping is empty then.
\<close>

lemma api_operation_loop_never_answers:
  "isl (fst (api_operation_loop E W data files (i # inputs)))"
  by (cases i) (simp add: encode_output_def split: prod.splits sum.splits)

lemma api_operation_never_answers:
  assumes "api_operation E W data = (Inr files, effs)"
  shows "op_input data = Some [] \<and> files = []"
proof (cases "op_input data")
  case None
  then show ?thesis using assms by (simp add: api_operation_def)
next
  case (Some inputs)
  show ?thesis
  proof (cases inputs)
    case Nil
    then show ?thesis
      using assms Some by (simp add: api_operation_def split: if_splits option.splits)
  next
    case (Cons i rest)
    have "isl (fst (api_operation_loop E W data [] (i # rest)))"
      by (rule api_operation_loop_never_answers)
    then show ?thesis
      using assms Some Cons by (auto simp add: api_operation_def split: if_splits option.splits)
  qed
qed

text \<open>
  C1.  The claim: the request that inverts the red channel of a one-pixel red PNG is
  answered with a mapping from \<open>img\<close> to a data URI of the image with the red channel
  inverted and green and blue unchanged.  The handler decodes the payload, opens the
  image, inverts its red channel and saves the result into the output buffer: the
  buffer holds, in the container format PNG, the pixel with red 0 where the input had
  255 and green and blue unchanged at 0.  Then it calls \<open>encode_output\<close> with two
  arguments, and the request ends with a TypeError instead of the mapping.
\<close>

theorem invert_red_request_ends_with_type_error:
  "api_operation reference_externals reference_service invert_red_request
     = (Inl (TypeError ''encode_output() takes 1 positional argument but 2 were given''),
        [Base64Decode red_payload, ImageOpen (Encoded ''PNG'' red_pixel)])
   \<and> render_input reference_externals reference_service invert_red_request
        (''data:image/png;base64,'' @ red_payload)
       = (Inr \<lparr>writable = True, written = Some (''PNG'', black_pixel)\<rparr>,
          [Base64Decode red_payload, ImageOpen (Encoded ''PNG'' red_pixel)])
   \<and> planes red_pixel = [[255], [0], [0]] \<and> planes black_pixel = [[0], [0], [0]]"
proof -
  have r: "render_input reference_externals reference_service invert_red_request
      (''data:image/png;base64'' @ '','' @ red_payload)
    = (Inr \<lparr>writable = True, written = Some (''PNG'', black_pixel)\<rparr>,
       [Base64Decode red_payload, ImageOpen (Encoded ''PNG'' red_pixel)])"
    by (rule render_red_input) (rule reference_service_facts invert_red_request_facts)+
  then have "api_operation reference_externals reference_service invert_red_request
     = (Inl (TypeError ''encode_output() takes 1 positional argument but 2 were given''),
        [Base64Decode red_payload, ImageOpen (Encoded ''PNG'' red_pixel)])"
    by (simp add: api_operation_def invert_red_request_facts encode_output_def
        SUPPORTED_OPERATIONS_def SUPPORTED_COLOR_CHANNEL_SHORTHANDS_def)
  then show ?thesis
    using r by (simp add: red_pixel_def black_pixel_def)
qed

end
